theory Spec2Isabelle
  imports Main
begin

section \<open>Characters and the two date patterns\<close>

text \<open>
  A character is a Unicode code point below 256 (the eight bits of \<open>char\<close>, read as
  Latin-1), and a string is a list of them; a date fragment with a code point beyond
  that range is outside the model. The character classes are those of Python's
  \<^verbatim>\<open>re\<close> module on \<^verbatim>\<open>str\<close> patterns over that range: \<^verbatim>\<open>\d\<close> is a decimal
  digit (only the ASCII digits there), \<^verbatim>\<open>\s\<close> is a character for which
  \<^verbatim>\<open>str.isspace\<close> holds (the ASCII ones, the next-line character U+0085 and the
  no-break space U+00A0), \<^verbatim>\<open>\w\<close> is the underscore or a character for which
  \<^verbatim>\<open>str.isalnum\<close> holds (the ASCII letters and digits, the Latin-1 letters, the
  superscript digits and the fractions), and \<^verbatim>\<open>.\<close> is any character but the
  newline.
\<close>

definition nl :: char where
  "nl = CHR 0x0A"

definition is_digit :: "char \<Rightarrow> bool" where
  "is_digit c = (c \<in> set ''0123456789'')"

definition is_space :: "char \<Rightarrow> bool" where
  "is_space c = (c \<in> set [CHR 0x09, CHR 0x0A, CHR 0x0B, CHR 0x0C, CHR 0x0D,
                             CHR 0x1C, CHR 0x1D, CHR 0x1E, CHR 0x1F, CHR 0x20,
                             CHR 0x85, CHR 0xA0])"

text \<open>
  The code points from 128 to 255 that are alphanumeric: the letters U+00AA, U+00B5,
  U+00BA, U+00C0 to U+00D6, U+00D8 to U+00F6 and U+00F8 to U+00FF, the superscripts
  U+00B2, U+00B3, U+00B9 and the fractions U+00BC to U+00BE.
\<close>

definition is_latin1_alnum :: "char \<Rightarrow> bool" where
  "is_latin1_alnum c =
     (let n = (of_char c :: nat)
      in n \<in> set [0xAA, 0xB2, 0xB3, 0xB5, 0xB9, 0xBA, 0xBC, 0xBD, 0xBE]
         \<or> (0xC0 \<le> n \<and> n \<le> 0xD6) \<or> (0xD8 \<le> n \<and> n \<le> 0xF6) \<or> 0xF8 \<le> n)"

definition is_word :: "char \<Rightarrow> bool" where
  "is_word c = (is_digit c
                \<or> c \<in> set ''abcdefghijklmnopqrstuvwxyz''
                \<or> c \<in> set ''ABCDEFGHIJKLMNOPQRSTUVWXYZ''
                \<or> c = CHR ''_''
                \<or> is_latin1_alnum c)"

datatype cclass = Digit | Space | Word | Dot

fun in_class :: "cclass \<Rightarrow> char \<Rightarrow> bool" where
  "in_class Digit c = is_digit c"
| "in_class Space c = is_space c"
| "in_class Word c = is_word c"
| "in_class Dot c = (c \<noteq> nl)"

text \<open>
  Both patterns of the source are sequences of bounded repetitions of one character
  class, so a pattern is a list of items \<open>(class, lo, hi)\<close> standing for
  \<^verbatim>\<open>class{lo,hi}\<close>. \<open>rep_rests\<close> lists what is left of the subject after every way of
  matching one item at its head (longest first, as the greedy quantifier tries them),
  \<open>re_rests\<close> does the same for a whole pattern, and \<open>re_match\<close> is
  \<^verbatim>\<open>re.match\<close> read as a truth value: the pattern matches at the start of the
  subject, whatever follows.
\<close>

type_synonym pattern = "(cclass \<times> nat \<times> nat) list"

fun rep_rests :: "cclass \<Rightarrow> nat \<Rightarrow> nat \<Rightarrow> string \<Rightarrow> string list" where
  "rep_rests c lo 0 s = (if lo = 0 then [s] else [])"
| "rep_rests c lo (Suc hi) [] = (if lo = 0 then [[]] else [])"
| "rep_rests c lo (Suc hi) (x # xs) =
     (if in_class c x then rep_rests c (lo - 1) hi xs else [])
     @ (if lo = 0 then [x # xs] else [])"

fun re_rests :: "pattern \<Rightarrow> string \<Rightarrow> string list" where
  "re_rests [] s = [s]"
| "re_rests ((c, lo, hi) # p) s = concat (map (re_rests p) (rep_rests c lo hi s))"

definition re_match :: "pattern \<Rightarrow> string \<Rightarrow> bool" where
  "re_match p s = (re_rests p s \<noteq> [])"

text \<open>\<^verbatim>\<open>\d{1,2}\s\w{3,9}\s\d{4}\<close> (movie.py, line 150).\<close>

definition movie_date_regex :: pattern where
  "movie_date_regex = [(Digit, 1, 2), (Space, 1, 1), (Word, 3, 9), (Space, 1, 1), (Digit, 4, 4)]"

text \<open>\<^verbatim>\<open>\d{1,2}\s\w{3}.{0,1}\s\d{4}\<close> (movie.py, lines 184 and 220).\<close>

definition episode_date_regex :: pattern where
  "episode_date_regex =
     [(Digit, 1, 2), (Space, 1, 1), (Word, 3, 3), (Dot, 0, 1), (Space, 1, 1), (Digit, 4, 4)]"

section \<open>Dates and times\<close>

text \<open>
  A naive \<^verbatim>\<open>datetime.datetime\<close>: its seven fields. Python orders two of them
  field by field, the year first.
\<close>

record datetime =
  year :: nat
  month :: nat
  day :: nat
  hour :: nat
  minute :: nat
  second :: nat
  microsecond :: nat

definition mk_date :: "nat \<Rightarrow> nat \<Rightarrow> nat \<Rightarrow> datetime" where
  "mk_date y m d = \<lparr>year = y, month = m, day = d, hour = 0, minute = 0, second = 0,
                    microsecond = 0\<rparr>"

definition dt_fields :: "datetime \<Rightarrow> nat list" where
  "dt_fields t = [year t, month t, day t, hour t, minute t, second t, microsecond t]"

fun lex_less :: "nat list \<Rightarrow> nat list \<Rightarrow> bool" where
  "lex_less (x # xs) (y # ys) = (x < y \<or> (x = y \<and> lex_less xs ys))"
| "lex_less _ _ = False"

definition dt_less :: "datetime \<Rightarrow> datetime \<Rightarrow> bool" where
  "dt_less a b = lex_less (dt_fields a) (dt_fields b)"

definition midnight :: "datetime \<Rightarrow> bool" where
  "midnight t = (hour t = 0 \<and> minute t = 0 \<and> second t = 0 \<and> microsecond t = 0)"

text \<open>\<^verbatim>\<open>t.replace(hour=0, minute=0, second=0, microsecond=0)\<close>.\<close>

definition replace_midnight :: "datetime \<Rightarrow> datetime" where
  "replace_midnight t = t\<lparr>hour := 0, minute := 0, second := 0, microsecond := 0\<rparr>"

definition leap_year :: "nat \<Rightarrow> bool" where
  "leap_year y = (y mod 4 = 0 \<and> (y mod 100 \<noteq> 0 \<or> y mod 400 = 0))"

definition days_in_month :: "nat \<Rightarrow> nat \<Rightarrow> nat" where
  "days_in_month y m =
     (if m = 2 then (if leap_year y then 29 else 28)
      else if m = 4 \<or> m = 6 \<or> m = 9 \<or> m = 11 then 30 else 31)"

text \<open>The check of the \<^verbatim>\<open>datetime.date\<close> constructor (years 1 to 9999).\<close>

definition valid_date :: "nat \<Rightarrow> nat \<Rightarrow> nat \<Rightarrow> bool" where
  "valid_date y m d =
     (1 \<le> y \<and> y \<le> 9999 \<and> 1 \<le> m \<and> m \<le> 12 \<and> 1 \<le> d \<and> d \<le> days_in_month y m)"

definition next_day :: "datetime \<Rightarrow> datetime" where
  "next_day t =
     (if day t < days_in_month (year t) (month t) then t\<lparr>day := day t + 1\<rparr>
      else if month t < 12 then t\<lparr>month := month t + 1, day := 1\<rparr>
      else t\<lparr>year := year t + 1, month := 1, day := 1\<rparr>)"

datatype exn = ValueError | KeyError | UnboundLocalError | OverflowError | ProviderError

text \<open>
  \<^verbatim>\<open>t + timedelta(days=n)\<close>: the calendar date moves on by \<open>n\<close> days, the time of
  day stays, and a result after the year 9999 raises \<^verbatim>\<open>OverflowError\<close>.
\<close>

fun days_on :: "nat \<Rightarrow> datetime \<Rightarrow> datetime" where
  "days_on 0 t = t"
| "days_on (Suc n) t = days_on n (next_day t)"

definition plus_days :: "datetime \<Rightarrow> nat \<Rightarrow> exn + datetime" where
  "plus_days t n =
     (let r = days_on n t in if year r \<le> 9999 then Inr r else Inl OverflowError)"

section \<open>Strict parsing: \<^verbatim>\<open>datetime.strptime\<close>\<close>

text \<open>
  \<^verbatim>\<open>strptime\<close> turns its format into a regular expression: \<^verbatim>\<open>%d\<close> becomes
  \<^verbatim>\<open>3[0-1]|[1-2]\d|0[1-9]|[1-9]| [1-9]\<close>, a blank of the format becomes
  \<^verbatim>\<open>\s+\<close>, \<^verbatim>\<open>%B\<close> and \<^verbatim>\<open>%b\<close> become the alternatives of the month names
  (matched without regard to case), \<^verbatim>\<open>%Y\<close> becomes four digits. It raises
  \<^verbatim>\<open>ValueError\<close> when the expression does not match at the start of the string,
  when the match leaves characters over, and when the numbers found are no calendar
  date. Each parser below lists the ways one directive can match, in the order the
  backtracking matcher tries them, with what is left of the string.
\<close>

definition digit_val :: "char \<Rightarrow> nat" where
  "digit_val c = of_char c - 48"

definition is_digit19 :: "char \<Rightarrow> bool" where
  "is_digit19 c = (c \<in> set ''123456789'')"

fun p_day :: "string \<Rightarrow> (nat \<times> string) list" where
  "p_day (a # b # r) =
     (if a = CHR ''3'' \<and> (b = CHR ''0'' \<or> b = CHR ''1'') then [(30 + digit_val b, r)] else [])
     @ (if (a = CHR ''1'' \<or> a = CHR ''2'') \<and> is_digit b then [(10 * digit_val a + digit_val b, r)]
        else [])
     @ (if a = CHR ''0'' \<and> is_digit19 b then [(digit_val b, r)] else [])
     @ (if is_digit19 a then [(digit_val a, b # r)] else [])
     @ (if a = CHR '' '' \<and> is_digit19 b then [(digit_val b, r)] else [])"
| "p_day [a] = (if is_digit19 a then [(digit_val a, [])] else [])"
| "p_day [] = []"

fun p_space :: "string \<Rightarrow> string list" where
  "p_space [] = []"
| "p_space (x # xs) = (if is_space x then p_space xs @ [xs] else [])"

definition lower :: "char \<Rightarrow> char" where
  "lower c = (case map_of (zip ''ABCDEFGHIJKLMNOPQRSTUVWXYZ'' ''abcdefghijklmnopqrstuvwxyz'') c of
                None \<Rightarrow> c | Some l \<Rightarrow> l)"

definition p_month :: "string list \<Rightarrow> string \<Rightarrow> (nat \<times> string) list" where
  "p_month names s =
     [(Suc i, drop (length (names ! i)) s).
        i \<leftarrow> [0 ..< length names], map lower (take (length (names ! i)) s) = names ! i]"

fun p_year :: "string \<Rightarrow> (nat \<times> string) list" where
  "p_year (a # b # c # d # r) =
     (if is_digit a \<and> is_digit b \<and> is_digit c \<and> is_digit d
      then [(1000 * digit_val a + 100 * digit_val b + 10 * digit_val c + digit_val d, r)]
      else [])"
| "p_year _ = []"

definition full_months :: "string list" where
  "full_months = [''january'', ''february'', ''march'', ''april'', ''may'', ''june'', ''july'',
                  ''august'', ''september'', ''october'', ''november'', ''december'']"

definition short_months :: "string list" where
  "short_months = [''jan'', ''feb'', ''mar'', ''apr'', ''may'', ''jun'', ''jul'', ''aug'', ''sep'',
                   ''oct'', ''nov'', ''dec'']"

definition strptime_matches :: "string list \<Rightarrow> string \<Rightarrow> (nat \<times> nat \<times> nat \<times> string) list" where
  "strptime_matches names s =
     [(y, m, d, r5). (d, r1) \<leftarrow> p_day s, r2 \<leftarrow> p_space r1, (m, r3) \<leftarrow> p_month names r2,
                     r4 \<leftarrow> p_space r3, (y, r5) \<leftarrow> p_year r4]"

definition strptime :: "string list \<Rightarrow> string \<Rightarrow> exn + datetime" where
  "strptime names s =
     (case strptime_matches names s of
        [] \<Rightarrow> Inl ValueError
      | (y, m, d, rest) # _ \<Rightarrow>
          if rest \<noteq> [] then Inl ValueError
          else if valid_date y m d then Inr (mk_date y m d)
          else Inl ValueError)"

section \<open>Python values\<close>

text \<open>
  The truth value Python gives an optional string or list: \<^verbatim>\<open>None\<close> and the empty
  one are false.
\<close>

definition truthy :: "'a list option \<Rightarrow> bool" where
  "truthy v = (case v of None \<Rightarrow> False | Some x \<Rightarrow> x \<noteq> [])"

text \<open>\<^verbatim>\<open>s.replace(c, '')\<close> for a single character \<open>c\<close>.\<close>

definition remove_char :: "char \<Rightarrow> string \<Rightarrow> string" where
  "remove_char c s = filter (\<lambda>x. x \<noteq> c) s"

fun str_nat :: "nat \<Rightarrow> string" where
  "str_nat n = (if n < 10 then [''0123456789'' ! n]
                else str_nat (n div 10) @ [''0123456789'' ! (n mod 10)])"

definition str_int :: "int \<Rightarrow> string" where
  "str_int i = (if i < 0 then CHR ''-'' # str_nat (nat (- i)) else str_nat (nat i))"

section \<open>Date resolution at its three sites\<close>

text \<open>
  Each site checks the pattern first and parses strictly only what passed; \<open>Inr None\<close>
  is the outcome "no usable date", \<open>Inl\<close> an exception of the strict parser.
  \<open>date_check rx v\<close> is the condition \<^verbatim>\<open>v and match(rx, v)\<close> on an optional field.
\<close>

definition date_check :: "pattern \<Rightarrow> string option \<Rightarrow> bool" where
  "date_check rx v = (case v of None \<Rightarrow> False | Some s \<Rightarrow> s \<noteq> [] \<and> re_match rx s)"

text \<open>\<open>movie_date\<close>: movie.py lines 157 to 159, on the first USA date.\<close>

definition movie_date :: "string \<Rightarrow> exn + datetime option" where
  "movie_date s =
     (if re_match movie_date_regex s
      then (case strptime full_months s of Inl e \<Rightarrow> Inl e | Inr d \<Rightarrow> Inr (Some d))
      else Inr None)"

text \<open>
  \<open>episode_date\<close>: lines 190 to 193, on an episode's \<^verbatim>\<open>original air date\<close>. The
  string without its periods is kept beside the date: the finale message quotes it.
\<close>

definition episode_date :: "string option \<Rightarrow> exn + (string \<times> datetime) option" where
  "episode_date v =
     (if date_check episode_date_regex v
      then (let ep_release_date = remove_char CHR ''.'' (the v)
            in case strptime short_months ep_release_date of
                 Inl e \<Rightarrow> Inl e
               | Inr d \<Rightarrow> Inr (Some (ep_release_date, d)))
      else Inr None)"

text \<open>
  \<open>next_episode_date\<close>: lines 225 to 229, on the next episode's
  \<^verbatim>\<open>original air date\<close>. Here the commas are removed, not the periods.
\<close>

definition next_episode_date :: "string option \<Rightarrow> exn + datetime option" where
  "next_episode_date v =
     (if date_check episode_date_regex v
      then (case strptime short_months (remove_char CHR '','' (the v)) of
              Inl e \<Rightarrow> Inl e
            | Inr d \<Rightarrow> Inr (Some d))
      else Inr None)"

section \<open>The metadata provider\<close>

text \<open>
  What the engine reads of an \<^verbatim>\<open>imdb.Movie\<close> object: \<^verbatim>\<open>getID()\<close> and the keys
  \<^verbatim>\<open>long imdb title\<close>, \<^verbatim>\<open>seasons\<close>, \<^verbatim>\<open>original air date\<close> and
  \<^verbatim>\<open>next episode\<close>, each of which may be missing.
\<close>

record imdb_movie =
  movieID :: string
  long_imdb_title :: "string option"
  seasons :: "string list option"
  original_air_date :: "string option"
  next_episode :: "string option"

text \<open>
  The provider is a collaborator: during one operation it is a function from
  identifiers to answers, and any call may raise. \<open>get_movie_episodes\<close> stands for
  \<^verbatim>\<open>get_movie_episodes(id)['data'].get('episodes')\<close>, a dictionary from season
  keys to dictionaries from episode numbers to episodes, in the provider's order;
  \<open>get_movie_release_info\<close> for
  \<^verbatim>\<open>get_movie_release_info(id)['data'].get('raw release dates')\<close>, a list of
  dictionaries with the keys \<^verbatim>\<open>country\<close>, \<^verbatim>\<open>date\<close> and \<^verbatim>\<open>notes\<close>.
\<close>

record imdb =
  get_movie :: "string \<Rightarrow> exn + imdb_movie"
  get_episode :: "string \<Rightarrow> exn + imdb_movie"
  get_movie_episodes :: "string \<Rightarrow> exn + (int \<times> (int \<times> imdb_movie) list) list option"
  get_movie_release_info :: "string \<Rightarrow> exn + (string \<rightharpoonup> string) list option"

section \<open>The alert store (db.py)\<close>

record alert =
  user_id :: string
  user_name :: string
  title_id :: string
  title_name :: "string option"
  title_episode_id :: "string option"
  title_release :: datetime

text \<open>
  The state of the database is the content of the table \<^verbatim>\<open>imdb_alerts\<close>, in the
  order of insertion, or \<open>None\<close> while the table has not been created. A statement on
  the missing table raises \<^verbatim>\<open>sqlite3.Error\<close>, which the decorator of db.py turns
  into the returned string \<open>db_error\<close>. The table declares no key and no constraint.
\<close>

type_synonym database = "alert list option"

definition db_error :: string where
  "db_error = ''Internal database error occured.''"

definition same_key :: "string \<Rightarrow> string \<Rightarrow> alert \<Rightarrow> bool" where
  "same_key u t r = (user_id r = u \<and> title_id r = t)"

definition create_table :: "database \<Rightarrow> (string + bool) \<times> database" where
  "create_table db = (Inr True, (case db of None \<Rightarrow> Some [] | Some rows \<Rightarrow> Some rows))"

text \<open>\<^verbatim>\<open>fetchone()\<close>: the \<^verbatim>\<open>title_name\<close> column of the first matching row, or \<^verbatim>\<open>None\<close>.\<close>

definition query_user_alert :: "database \<Rightarrow> string \<Rightarrow> string \<Rightarrow> string + string option option" where
  "query_user_alert db u t =
     (case db of
        None \<Rightarrow> Inl db_error
      | Some rows \<Rightarrow>
          (case filter (same_key u t) rows of [] \<Rightarrow> Inr None | r # _ \<Rightarrow> Inr (Some (title_name r))))"

definition query_released :: "database \<Rightarrow> datetime \<Rightarrow> string + (string \<times> string \<times> string option) list" where
  "query_released db today =
     (case db of
        None \<Rightarrow> Inl db_error
      | Some rows \<Rightarrow>
          Inr (map (\<lambda>r. (user_id r, title_id r, title_episode_id r))
                 (filter (\<lambda>r. title_release r = today) rows)))"

definition insert_db :: "database \<Rightarrow> alert \<Rightarrow> string \<times> database" where
  "insert_db db values =
     (case db of
        None \<Rightarrow> (db_error, None)
      | Some rows \<Rightarrow> (''Alert enabled.'', Some (rows @ [values])))"

text \<open>\<open>update\<close> returns nothing (\<^verbatim>\<open>None\<close>), or the error string.\<close>

definition update :: "database \<Rightarrow> string option \<times> datetime \<times> string \<times> string \<Rightarrow> string option \<times> database" where
  "update db values =
     (case values of (episode_id, release, u, t) \<Rightarrow>
        (case db of
           None \<Rightarrow> (Some db_error, None)
         | Some rows \<Rightarrow>
             (None, Some (map (\<lambda>r. if same_key u t r
                                     then r\<lparr>title_episode_id := episode_id, title_release := release\<rparr>
                                     else r) rows))))"

definition delete :: "database \<Rightarrow> string \<Rightarrow> string \<Rightarrow> string \<times> database" where
  "delete db u t =
     (case db of
        None \<Rightarrow> (db_error, None)
      | Some rows \<Rightarrow> (''Alert disabled.'', Some (filter (\<lambda>r. \<not> same_key u t r) rows)))"

section \<open>The alert engine (movie.py)\<close>

text \<open>
  An operation of the engine takes the provider, what \<^verbatim>\<open>datetime.now()\<close> returns and
  the database, and returns its Python result with the database it leaves. One call
  of \<^verbatim>\<open>enable\<close> is taken to read the same instant \<open>now\<close> at each of its readings
  of the clock. The tick reads the clock when it starts (\<open>now\<close>, line 312) and again,
  later, each time \<^verbatim>\<open>_update_episode\<close> schedules a new check (line 232): these
  later readings are the argument \<open>clock\<close>, where \<open>clock k\<close> is what the clock shows
  while the due row number \<open>k\<close> is processed. Inside an operation a raised exception
  is \<open>Inl\<close>; the database is returned beside it, since every write was committed when
  it was made.

  The decorator of movie.py catches every exception and returns the string
  \<open>unexpected_error\<close> in place of the result; \<open>as_result\<close> places that string in the
  result type of the decorated function.
\<close>

definition unexpected_error :: string where
  "unexpected_error = ''Unexpected error occured.''"

definition catch_and_log :: "(string \<Rightarrow> 'a) \<Rightarrow> (exn + 'a) \<times> database \<Rightarrow> 'a \<times> database" where
  "catch_and_log as_result r =
     (case r of (Inl e, db) \<Rightarrow> (as_result unexpected_error, db) | (Inr v, db) \<Rightarrow> (v, db))"

subsection \<open>Subscribing to a movie\<close>

text \<open>
  The list comprehension of lines 154 to 156: \<^verbatim>\<open>i['country']\<close> and \<^verbatim>\<open>i['date']\<close>
  raise \<^verbatim>\<open>KeyError\<close> on a missing key, \<^verbatim>\<open>i.get('notes')\<close> does not.
\<close>

fun usa_release_dates :: "(string \<rightharpoonup> string) list \<Rightarrow> exn + string list" where
  "usa_release_dates [] = Inr []"
| "usa_release_dates (i # rest) =
     (case i ''country'' of
        None \<Rightarrow> Inl KeyError
      | Some country \<Rightarrow>
          if country = ''USA'' @ [nl] \<and> \<not> truthy (i ''notes'')
          then (case i ''date'' of
                  None \<Rightarrow> Inl KeyError
                | Some date \<Rightarrow>
                    (case usa_release_dates rest of
                       Inl e \<Rightarrow> Inl e
                     | Inr dates \<Rightarrow> Inr (date # dates)))
          else usa_release_dates rest)"

definition get_movie_release_date ::
  "imdb \<Rightarrow> datetime \<Rightarrow> database \<Rightarrow> string \<Rightarrow> string \<Rightarrow> string \<Rightarrow> string option
   \<Rightarrow> string \<times> database" where
  "get_movie_release_date api now db uid uname tid tname =
     catch_and_log id
       (case get_movie_release_info api tid of
          Inl e \<Rightarrow> (Inl e, db)
        | Inr release_dates \<Rightarrow>
            if truthy release_dates
            then (case usa_release_dates (the release_dates) of
                    Inl e \<Rightarrow> (Inl e, db)
                  | Inr usa_release_date \<Rightarrow>
                      (case usa_release_date of
                         [] \<Rightarrow> (Inr ''Unable to find USA release date'', db)
                       | date # _ \<Rightarrow>
                           (case movie_date date of
                              Inl e \<Rightarrow> (Inl e, db)
                            | Inr None \<Rightarrow> (Inr ''Unable to find USA release date'', db)
                            | Inr (Some release_date) \<Rightarrow>
                                if dt_less now release_date
                                then (case insert_db db
                                             \<lparr>user_id = uid, user_name = uname, title_id = tid,
                                              title_name = tname, title_episode_id = None,
                                              title_release = release_date\<rparr> of
                                        (message, db') \<Rightarrow> (Inr message, db'))
                                else (Inr (''Released on '' @ date @ '' in USA''), db))))
            else (Inr ''No release date found'', db))"

subsection \<open>Subscribing to a series\<close>

text \<open>
  The loop of lines 189 to 207 over the episodes of the current season, \<open>n\<close> being
  \<^verbatim>\<open>len(latest_episodes)\<close>. The variable \<^verbatim>\<open>message\<close> is unbound until the
  \<^verbatim>\<open>else\<close> branch of line 207 assigns it; returning it unbound raises
  \<^verbatim>\<open>UnboundLocalError\<close>.
\<close>

fun episode_loop ::
  "datetime \<Rightarrow> string \<Rightarrow> string \<Rightarrow> string \<Rightarrow> string option \<Rightarrow> int \<Rightarrow> nat
   \<Rightarrow> (int \<times> imdb_movie) list \<Rightarrow> string option \<Rightarrow> database \<Rightarrow> (exn + string) \<times> database" where
  "episode_loop now uid uname tid tname season n [] message db =
     (case message of None \<Rightarrow> (Inl UnboundLocalError, db) | Some m \<Rightarrow> (Inr m, db))"
| "episode_loop now uid uname tid tname season n ((ep_no, ep_data) # rest) message db =
     (case episode_date (original_air_date ep_data) of
        Inl e \<Rightarrow> (Inl e, db)
      | Inr None \<Rightarrow>
          episode_loop now uid uname tid tname season n rest
            (Some ''Unable to get episode release date'') db
      | Inr (Some (ep_release_date, release_date)) \<Rightarrow>
          if dt_less release_date now
          then (if ep_no = int n
                then (Inr (''Season '' @ str_int season @ '' finale aired '' @ ep_release_date), db)
                else episode_loop now uid uname tid tname season n rest message db)
          else (case insert_db db
                       \<lparr>user_id = uid, user_name = uname, title_id = tid, title_name = tname,
                        title_episode_id = Some (movieID ep_data), title_release = release_date\<rparr> of
                  (m, db') \<Rightarrow> (Inr m, db')))"

definition get_episode_release_date ::
  "imdb \<Rightarrow> datetime \<Rightarrow> database \<Rightarrow> string \<Rightarrow> string \<Rightarrow> string \<Rightarrow> string option
   \<Rightarrow> string \<times> database" where
  "get_episode_release_date api now db uid uname tid tname =
     catch_and_log id
       (case get_movie_episodes api tid of
          Inl e \<Rightarrow> (Inl e, db)
        | Inr title_episodes \<Rightarrow>
            (case title_episodes of
               None \<Rightarrow> (Inr ''Unable to get series episodes'', db)
             | Some [] \<Rightarrow> (Inr ''Unable to get series episodes'', db)
             | Some ((current_season, latest_episodes) # _) \<Rightarrow>
                 episode_loop now uid uname tid tname current_season (length latest_episodes)
                   latest_episodes None db))"

subsection \<open>Subscribing and unsubscribing\<close>

definition enable :: "imdb \<Rightarrow> datetime \<Rightarrow> database \<Rightarrow> string \<Rightarrow> string \<Rightarrow> string \<Rightarrow> string \<times> database" where
  "enable api now db uid uname tid =
     catch_and_log id
       (case get_movie api tid of
          Inl e \<Rightarrow> (Inl e, db)
        | Inr imdb_data \<Rightarrow>
            (case (if truthy (seasons imdb_data)
                   then get_episode_release_date api now db uid uname tid (long_imdb_title imdb_data)
                   else get_movie_release_date api now db uid uname tid (long_imdb_title imdb_data)) of
               (message, db') \<Rightarrow> (Inr message, db')))"

definition disable :: "database \<Rightarrow> string \<Rightarrow> string \<Rightarrow> string \<times> database" where
  "disable db uid tid =
     catch_and_log id (case delete db uid tid of (message, db') \<Rightarrow> (Inr message, db'))"

definition create_db :: "database \<Rightarrow> database" where
  "create_db db = snd (create_table db)"

subsection \<open>The daily tick\<close>

text \<open>
  \<open>update_episode\<close> returns the identifier it stored, the false value it read when
  there is no next episode, or the error string of its decorator.
\<close>

definition update_episode ::
  "imdb \<Rightarrow> datetime \<Rightarrow> database \<Rightarrow> string \<Rightarrow> string \<Rightarrow> imdb_movie \<Rightarrow> string option \<times> database" where
  "update_episode api now db uid tid current_episode_data =
     catch_and_log Some
       (let next_episode_id = next_episode current_episode_data
        in if truthy next_episode_id
           then (case get_episode api (the next_episode_id) of
                   Inl e \<Rightarrow> (Inl e, db)
                 | Inr next_episode_data \<Rightarrow>
                     (case next_episode_date (original_air_date next_episode_data) of
                        Inl e \<Rightarrow> (Inl e, db)
                      | Inr (Some release_date) \<Rightarrow>
                          (Inr next_episode_id,
                           snd (update db (next_episode_id, release_date, uid, tid)))
                      | Inr None \<Rightarrow>
                          (case plus_days now 7 of
                             Inl e \<Rightarrow> (Inl e, db)
                           | Inr next_week_date \<Rightarrow>
                               (Inr (Some (movieID current_episode_data)),
                                snd (update db (Some (movieID current_episode_data),
                                                replace_midnight next_week_date, uid, tid))))))
           else (Inr next_episode_id, snd (delete db uid tid)))"

text \<open>
  The body of the loop of \<^verbatim>\<open>notify\<close> (lines 317 to 342) on one due row. \<open>fmt\<close> stands
  for \<^verbatim>\<open>reply_message(get_fields(\<dots>))\<close>, the text that describes a title: both
  functions carry the decorator, so the composition returns a string on every
  argument, and no property below depends on what the string is. \<open>today\<close> is the
  day on which the tick started, \<open>now\<close> the reading of the clock while this row is
  processed.
\<close>

definition notify_row ::
  "imdb \<Rightarrow> (imdb_movie \<Rightarrow> string) \<Rightarrow> datetime \<Rightarrow> datetime \<Rightarrow> string \<times> string \<times> string option
   \<Rightarrow> (string \<times> string) list \<Rightarrow> database \<Rightarrow> (exn + (string \<times> string) list) \<times> database" where
  "notify_row api fmt now today row alerts db =
     (case row of (uid, tid, episode_id) \<Rightarrow>
        if truthy episode_id
        then (case get_episode api (the episode_id) of
                Inl e \<Rightarrow> (Inl e, db)
              | Inr current_episode \<Rightarrow>
                  (case original_air_date current_episode of
                     None \<Rightarrow> (Inl KeyError, db)
                   | Some air_date \<Rightarrow>
                       (case strptime short_months (remove_char CHR '','' air_date) of
                          Inl e \<Rightarrow> (Inl e, db)
                        | Inr current_release_date \<Rightarrow>
                            (case update_episode api now db uid tid current_episode of
                               (next_episode_id, db') \<Rightarrow>
                                 if \<not> truthy next_episode_id
                                 then (Inr (alerts @ [(uid, ''Series finale episode!(alert disabled)''
                                                             @ [nl, nl] @ fmt current_episode)]), db')
                                 else if current_release_date = today
                                 then (Inr (alerts @ [(uid, ''Episode is out!!'' @ [nl, nl]
                                                             @ fmt current_episode)]), db')
                                 else (Inr alerts, db')))))
        else (case get_movie api tid of
                Inl e \<Rightarrow> (Inl e, db)
              | Inr title_data \<Rightarrow>
                  (Inr (alerts @ [(uid, ''Movie is out!'' @ [nl, nl] @ fmt title_data)]),
                   snd (delete db uid tid))))"

text \<open>
  The loop over the due rows. The first row is processed at the reading \<open>clock 0\<close>,
  the rows after it at the readings that follow.
\<close>

fun notify_rows ::
  "imdb \<Rightarrow> (imdb_movie \<Rightarrow> string) \<Rightarrow> (nat \<Rightarrow> datetime) \<Rightarrow> datetime
   \<Rightarrow> (string \<times> string \<times> string option) list
   \<Rightarrow> (string \<times> string) list \<Rightarrow> database \<Rightarrow> (exn + (string \<times> string) list) \<times> database" where
  "notify_rows api fmt clock today [] alerts db = (Inr alerts, db)"
| "notify_rows api fmt clock today (row # rows) alerts db =
     (case notify_row api fmt (clock 0) today row alerts db of
        (Inl e, db') \<Rightarrow> (Inl e, db')
      | (Inr alerts', db') \<Rightarrow> notify_rows api fmt (\<lambda>k. clock (Suc k)) today rows alerts' db')"

text \<open>
  \<^verbatim>\<open>notify\<close> returns the list of alerts, or the error string of its decorator. When
  the query of the due rows returns the error string of the store, the test
  \<^verbatim>\<open>isinstance(rows, list)\<close> fails and the empty list is returned.
\<close>

definition notify ::
  "imdb \<Rightarrow> (imdb_movie \<Rightarrow> string) \<Rightarrow> datetime \<Rightarrow> (nat \<Rightarrow> datetime) \<Rightarrow> database
   \<Rightarrow> (string + (string \<times> string) list) \<times> database" where
  "notify api fmt now clock db =
     catch_and_log Inl
       (let today = replace_midnight now
        in case query_released db today of
             Inl err \<Rightarrow> (Inr (Inr []), db)
           | Inr rows \<Rightarrow>
               (case notify_rows api fmt clock today rows [] db of
                  (Inl e, db') \<Rightarrow> (Inl e, db')
                | (Inr alerts, db') \<Rightarrow> (Inr (Inr alerts), db')))"

section \<open>Vocabulary of the properties\<close>

text \<open>
  An episode lacks a usable date when its \<^verbatim>\<open>original air date\<close> is missing, empty
  or fails the pattern. The loop of the series path passes over an episode, that is,
  goes on to the next one, when the episode lacks a usable date, or when its date
  parses, lies before \<open>now\<close> and its number is not the length \<open>n\<close> of the season.
\<close>

definition lacks_date :: "imdb_movie \<Rightarrow> bool" where
  "lacks_date ep = (\<not> date_check episode_date_regex (original_air_date ep))"

definition passed_over :: "datetime \<Rightarrow> nat \<Rightarrow> int \<times> imdb_movie \<Rightarrow> bool" where
  "passed_over now n e =
     (case episode_date (original_air_date (snd e)) of
        Inl _ \<Rightarrow> False
      | Inr None \<Rightarrow> True
      | Inr (Some (s, d)) \<Rightarrow> dt_less d now \<and> fst e \<noteq> int n)"

text \<open>
  The exception that the body of the loop of \<^verbatim>\<open>notify\<close> raises on a due row outside
  every decorated call, if any: the provider refusing the row's episode or movie, the
  episode having no \<^verbatim>\<open>original air date\<close>, or that date failing the strict parser.
\<close>

definition row_fault :: "imdb \<Rightarrow> string \<times> string \<times> string option \<Rightarrow> exn option" where
  "row_fault api row =
     (case row of (uid, tid, episode_id) \<Rightarrow>
        if truthy episode_id
        then (case get_episode api (the episode_id) of
                Inl e \<Rightarrow> Some e
              | Inr current_episode \<Rightarrow>
                  (case original_air_date current_episode of
                     None \<Rightarrow> Some KeyError
                   | Some air_date \<Rightarrow>
                       (case strptime short_months (remove_char CHR '','' air_date) of
                          Inl e \<Rightarrow> Some e
                        | Inr _ \<Rightarrow> None)))
        else (case get_movie api tid of Inl e \<Rightarrow> Some e | Inr _ \<Rightarrow> None))"

text \<open>At most one row for each pair of user and title.\<close>

definition unique_keys :: "database \<Rightarrow> bool" where
  "unique_keys db =
     (case db of None \<Rightarrow> True | Some rows \<Rightarrow> distinct (map (\<lambda>r. (user_id r, title_id r)) rows))"

text \<open>
  \<open>writes_midnight db db'\<close>: every row of \<open>db'\<close> is a row of \<open>db\<close> as it was, or
  carries a release date at midnight; so whatever was written between the two states
  was written with the time of day zero.
\<close>

definition writes_midnight :: "database \<Rightarrow> database \<Rightarrow> bool" where
  "writes_midnight db db' =
     (case db' of
        None \<Rightarrow> True
      | Some rows' \<Rightarrow>
          list_all (\<lambda>r. midnight (title_release r)
                         \<or> (case db of None \<Rightarrow> False | Some rows \<Rightarrow> r \<in> set rows)) rows')"

text \<open>The row of the update statement: the two columns it sets, on the rows of the key.\<close>

definition set_episode :: "string \<Rightarrow> string \<Rightarrow> string \<Rightarrow> datetime \<Rightarrow> alert \<Rightarrow> alert" where
  "set_episode u t e release r =
     (if same_key u t r then r\<lparr>title_episode_id := Some e, title_release := release\<rparr> else r)"

section \<open>Sample data\<close>

text \<open>
  A small provider for the concrete cases: a film \<open>tt001\<close> released in the USA on
  15 June 2030, two series, and a chain of episodes.
\<close>

definition sample_title :: "string \<Rightarrow> string \<Rightarrow> string list option \<Rightarrow> imdb_movie" where
  "sample_title i name ss =
     \<lparr>movieID = i, long_imdb_title = Some name, seasons = ss, original_air_date = None,
      next_episode = None\<rparr>"

definition sample_episode :: "string \<Rightarrow> string option \<Rightarrow> string option \<Rightarrow> imdb_movie" where
  "sample_episode i air nxt =
     \<lparr>movieID = i, long_imdb_title = None, seasons = None, original_air_date = air,
      next_episode = nxt\<rparr>"

definition sample_releases :: "(string \<rightharpoonup> string) list" where
  "sample_releases =
     [[''country'' \<mapsto> ''UK'' @ [nl], ''date'' \<mapsto> ''1 May 2030''],
      [''country'' \<mapsto> ''USA'' @ [nl], ''date'' \<mapsto> ''14 June 2030'', ''notes'' \<mapsto> ''(premiere)''],
      [''country'' \<mapsto> ''USA'' @ [nl], ''date'' \<mapsto> ''15 June 2030'']]"

definition sample_api :: imdb where
  "sample_api =
     \<lparr>get_movie = (\<lambda>i.
        if i = ''tt001'' then Inr (sample_title ''tt001'' ''Film (2030)'' None)
        else if i = ''tt002'' then Inr (sample_title ''tt002'' ''Show (2029)'' (Some [''1'']))
        else if i = ''tt003'' then Inr (sample_title ''tt003'' ''Serial (2028)'' (Some [''1'']))
        else Inl ProviderError),
      get_episode = (\<lambda>i.
        if i = ''e1'' then Inr (sample_episode ''e1'' (Some ''12 Jun 2024'') (Some ''e2''))
        else if i = ''e2'' then Inr (sample_episode ''e2'' (Some ''19 Jun 2024'') (Some ''e3''))
        else if i = ''e3'' then Inr (sample_episode ''e3'' (Some ''TBA'') None)
        else if i = ''e4'' then Inr (sample_episode ''e4'' (Some ''12 Jun 2024'') (Some ''e5''))
        else if i = ''e5'' then Inr (sample_episode ''e5'' (Some ''19 Jun. 2024'') None)
        else if i = ''e11'' then Inr (sample_episode ''e11'' (Some ''12 Jun. 2024'') (Some ''e3''))
        else Inl ProviderError),
      get_movie_episodes = (\<lambda>i.
        if i = ''tt002''
        then Inr (Some [(1, [(1, sample_episode ''e6'' None None),
                             (2, sample_episode ''e7'' (Some ''12 Jun. 2030'') None)])])
        else if i = ''tt003''
        then Inr (Some [(1, [(1, sample_episode ''e8'' (Some ''TBA'') None),
                             (2, sample_episode ''e9'' (Some ''2 Jan. 2020'') None),
                             (3, sample_episode ''e10'' None None)])])
        else Inl ProviderError),
      get_movie_release_info = (\<lambda>i.
        if i = ''tt001'' then Inr (Some sample_releases) else Inr None)\<rparr>"

definition sample_fmt :: "imdb_movie \<Rightarrow> string" where
  "sample_fmt m = ''<b>'' @ movieID m @ ''</b>''"

definition sample_now :: datetime where
  "sample_now = \<lparr>year = 2024, month = 6, day = 12, hour = 9, minute = 30, second = 0,
                  microsecond = 0\<rparr>"

text \<open>A clock that stands still during the tick, and one that has passed midnight.\<close>

definition sample_clock :: "nat \<Rightarrow> datetime" where
  "sample_clock k = sample_now"

definition sample_clock_late :: "nat \<Rightarrow> datetime" where
  "sample_clock_late k = \<lparr>year = 2024, month = 6, day = 13, hour = 0, minute = 0, second = 2,
                           microsecond = 0\<rparr>"

definition sample_alert :: "string \<Rightarrow> string \<Rightarrow> string option \<Rightarrow> datetime \<Rightarrow> alert" where
  "sample_alert u t e release =
     \<lparr>user_id = u, user_name = ''Ann'', title_id = t, title_name = Some ''Title'',
      title_episode_id = e, title_release = release\<rparr>"

section \<open>Lemmas\<close>

subsection \<open>Dates\<close>

lemma strptime_midnight: "strptime names s = Inr d \<Longrightarrow> midnight d"
  by (auto simp: strptime_def mk_date_def midnight_def split: list.splits prod.splits if_splits)

lemma movie_date_midnight: "movie_date s = Inr (Some d) \<Longrightarrow> midnight d"
  by (auto simp: movie_date_def split: if_splits sum.splits dest: strptime_midnight)

lemma episode_date_midnight: "episode_date v = Inr (Some (s, d)) \<Longrightarrow> midnight d"
  by (auto simp: episode_date_def Let_def split: if_splits sum.splits dest: strptime_midnight)

lemma next_episode_date_midnight: "next_episode_date v = Inr (Some d) \<Longrightarrow> midnight d"
  by (auto simp: next_episode_date_def split: if_splits sum.splits dest: strptime_midnight)

lemma midnight_replace: "midnight (replace_midnight t)"
  by (simp add: midnight_def replace_midnight_def)

lemma replace_next_day: "replace_midnight (next_day t) = next_day (replace_midnight t)"
  by (simp add: replace_midnight_def next_day_def)

lemma replace_days_on: "replace_midnight (days_on n t) = days_on n (replace_midnight t)"
  by (induction n arbitrary: t) (simp_all add: replace_next_day)

lemma year_replace: "year (replace_midnight t) = year t"
  by (simp add: replace_midnight_def)

lemma plus_days_replace:
  "plus_days t n = Inr w \<Longrightarrow> plus_days (replace_midnight t) n = Inr (replace_midnight w)"
  by (auto simp: plus_days_def Let_def replace_days_on[symmetric] year_replace split: if_splits)

subsection \<open>The subscribe paths\<close>

lemma usa_nonempty: "usa_release_dates entries = Inr (d # ds) \<Longrightarrow> entries \<noteq> []"
  by (cases entries) auto

lemma episode_date_None_iff: "episode_date (original_air_date ep) = Inr None \<longleftrightarrow> lacks_date ep"
  by (auto simp: episode_date_def lacks_date_def Let_def split: sum.splits)

lemma episode_loop_passed_over:
  "list_all (passed_over now n) pre \<Longrightarrow>
   episode_loop now uid uname tid tname season n (pre @ rest) message db =
   episode_loop now uid uname tid tname season n rest
     (if list_ex (\<lambda>e. lacks_date (snd e)) pre then Some ''Unable to get episode release date''
      else message) db"
proof (induction pre arbitrary: message)
  case Nil
  then show ?case by simp
next
  case (Cons e pre)
  obtain k ep where e: "e = (k, ep)" by (cases e)
  from Cons.prems have po: "passed_over now n (k, ep)" and rest: "list_all (passed_over now n) pre"
    by (simp_all add: e)
  show ?case
  proof (cases "episode_date (original_air_date ep)")
    case (Inl x)
    with po show ?thesis by (simp add: passed_over_def)
  next
    case (Inr r)
    show ?thesis
    proof (cases r)
      case None
      with Inr have l: "lacks_date ep" by (simp add: episode_date_None_iff[symmetric])
      show ?thesis using Inr None l Cons.IH[OF rest] by (simp add: e)
    next
      case (Some p)
      obtain s d where p: "p = (s, d)" by (cases p)
      from Inr Some p have nl: "\<not> lacks_date ep" by (simp add: episode_date_None_iff[symmetric])
      from po Inr Some p have "dt_less d now" "k \<noteq> int n" by (simp_all add: passed_over_def)
      then show ?thesis using Inr Some p nl Cons.IH[OF rest] by (simp add: e)
    qed
  qed
qed

subsection \<open>The tick on one row\<close>

lemma update_Some:
  "update (Some rows) (Some e, release, u, t) = (None, Some (map (set_episode u t e release) rows))"
  by (simp add: update_def set_episode_def)

lemma update_episode_known:
  assumes "next_episode cur = Some nid" and "nid \<noteq> []" and "get_episode api nid = Inr nxt"
    and "next_episode_date (original_air_date nxt) = Inr (Some release)"
  shows "update_episode api now (Some rows) u t cur =
           (Some nid, Some (map (set_episode u t nid release) rows))"
  using assms by (simp add: update_episode_def catch_and_log_def truthy_def update_Some)

lemma next_episode_date_None: "\<not> date_check episode_date_regex v \<Longrightarrow> next_episode_date v = Inr None"
  by (simp add: next_episode_date_def)

lemma update_episode_placeholder:
  assumes "next_episode cur = Some nid" and "nid \<noteq> []" and "get_episode api nid = Inr nxt"
    and "\<not> date_check episode_date_regex (original_air_date nxt)"
    and "plus_days now 7 = Inr w"
  shows "update_episode api now (Some rows) u t cur =
           (Some (movieID cur), Some (map (set_episode u t (movieID cur) (replace_midnight w)) rows))"
  using assms
  by (simp add: update_episode_def catch_and_log_def truthy_def update_Some next_episode_date_None)

lemma notify_row_series:
  assumes "e \<noteq> []" and "get_episode api e = Inr cur" and "original_air_date cur = Some air"
    and "strptime short_months (remove_char CHR '','' air) = Inr cd"
  shows "notify_row api fmt now today (u, t, Some e) alerts db =
           (case update_episode api now db u t cur of
              (nid, db') \<Rightarrow>
                (Inr (alerts @
                   (if \<not> truthy nid
                    then [(u, ''Series finale episode!(alert disabled)'' @ [nl, nl] @ fmt cur)]
                    else if cd = today then [(u, ''Episode is out!!'' @ [nl, nl] @ fmt cur)]
                    else [])), db'))"
  using assms by (simp add: notify_row_def truthy_def split: prod.splits)

lemma notify_single:
  "query_released db (replace_midnight now) = Inr [row] \<Longrightarrow>
   notify api fmt now clock db =
     (case notify_row api fmt (clock 0) (replace_midnight now) row [] db of
        (Inl e, db') \<Rightarrow> (Inl unexpected_error, db')
      | (Inr alerts, db') \<Rightarrow> (Inr alerts, db'))"
  by (simp add: notify_def catch_and_log_def Let_def split: prod.splits sum.splits)

lemma set_episode_keys:
  "user_id (set_episode u t e release r) = user_id r"
  "title_id (set_episode u t e release r) = title_id r"
  by (simp_all add: set_episode_def)


subsection \<open>Exceptions in the tick\<close>

lemma notify_row_fault:
  "row_fault api row = Some e \<Longrightarrow> notify_row api fmt now today row alerts db = (Inl e, db)"
  by (auto simp: row_fault_def notify_row_def split: prod.splits if_splits sum.splits option.splits)

lemma notify_row_no_fault:
  "row_fault api row = None \<Longrightarrow> \<exists>alerts' db'. notify_row api fmt now today row alerts db = (Inr alerts', db')"
  by (auto simp: row_fault_def notify_row_def split: prod.splits if_splits sum.splits option.splits)

lemma notify_rows_append:
  "notify_rows api fmt clock today (pre @ post) alerts db =
     (case notify_rows api fmt clock today pre alerts db of
        (Inl e, db') \<Rightarrow> (Inl e, db')
      | (Inr alerts', db') \<Rightarrow>
          notify_rows api fmt (\<lambda>k. clock (length pre + k)) today post alerts' db')"
  by (induction pre arbitrary: alerts db clock) (auto split: prod.splits sum.splits)

lemma notify_rows_no_fault:
  "list_all (\<lambda>r. row_fault api r = None) rows \<Longrightarrow>
   \<exists>alerts' db'. notify_rows api fmt clock today rows alerts db = (Inr alerts', db')"
proof (induction rows arbitrary: alerts db clock)
  case Nil
  then show ?case by simp
next
  case (Cons row rows)
  from Cons.prems have "row_fault api row = None" by simp
  from notify_row_no_fault[OF this] obtain a1 db1
    where r: "notify_row api fmt (clock 0) today row alerts db = (Inr a1, db1)" by blast
  from Cons.prems have "list_all (\<lambda>r. row_fault api r = None) rows" by simp
  from Cons.IH[OF this] show ?case by (simp add: r)
qed


subsection \<open>What an operation does to the database\<close>

lemma update_episode_db_cases:
  "snd (update_episode api now db u t cur) = db
   \<or> snd (update_episode api now db u t cur) = snd (delete db u t)
   \<or> (\<exists>e release. midnight release
         \<and> snd (update_episode api now db u t cur) = snd (update db (Some e, release, u, t)))"
proof (cases "truthy (next_episode cur)")
  case False
  then show ?thesis by (simp add: update_episode_def catch_and_log_def)
next
  case True
  then obtain nid where nid: "next_episode cur = Some nid" by (auto simp: truthy_def split: option.splits)
  show ?thesis
  proof (cases "get_episode api nid")
    case (Inl x)
    then show ?thesis using True nid by (simp add: update_episode_def catch_and_log_def)
  next
    case (Inr nxt)
    show ?thesis
    proof (cases "next_episode_date (original_air_date nxt)")
      case (Inl x)
      then show ?thesis using True nid Inr by (simp add: update_episode_def catch_and_log_def)
    next
      case r: (Inr d)
      show ?thesis
      proof (cases d)
        case None
        show ?thesis
        proof (cases "plus_days now 7")
          case (Inl x)
          then show ?thesis using True nid Inr r None by (simp add: update_episode_def catch_and_log_def)
        next
          case w: (Inr w)
          have "snd (update_episode api now db u t cur) =
                snd (update db (Some (movieID cur), replace_midnight w, u, t))"
            using True nid Inr r None w by (simp add: update_episode_def catch_and_log_def)
          then show ?thesis using midnight_replace by blast
        qed
      next
        case (Some release)
        have m: "midnight release" using r Some next_episode_date_midnight by blast
        have "snd (update_episode api now db u t cur) = snd (update db (Some nid, release, u, t))"
          using True nid Inr r Some by (simp add: update_episode_def catch_and_log_def Let_def)
        then show ?thesis using m by blast
      qed
    qed
  qed
qed

lemma notify_row_db_cases:
  "snd (notify_row api fmt now today row alerts db) = db
   \<or> (\<exists>u t. snd (notify_row api fmt now today row alerts db) = snd (delete db u t))
   \<or> (\<exists>e release u t. midnight release
         \<and> snd (notify_row api fmt now today row alerts db) = snd (update db (Some e, release, u, t)))"
proof -
  obtain u t eid where row: "row = (u, t, eid)" by (cases row)
  have series: "snd (notify_row api fmt now today row alerts db) = db
      \<or> snd (notify_row api fmt now today row alerts db) = snd (update_episode api now db u t cur)"
    if "truthy eid" "get_episode api (the eid) = Inr cur" for cur
    using that by (auto simp: notify_row_def row split: option.splits sum.splits prod.splits)
  show ?thesis
  proof (cases "truthy eid")
    case False
    then show ?thesis
      by (auto simp: notify_row_def row split: sum.splits)
  next
    case True
    show ?thesis
    proof (cases "get_episode api (the eid)")
      case (Inl x)
      then show ?thesis using True by (simp add: notify_row_def row)
    next
      case (Inr cur)
      from series[OF True Inr] update_episode_db_cases[of api now db u t cur]
      show ?thesis by metis
    qed
  qed
qed

lemma notify_rows_invariant:
  assumes del: "\<And>db u t. I db \<Longrightarrow> I (snd (delete db u t))"
    and upd: "\<And>db e release u t. I db \<Longrightarrow> midnight release \<Longrightarrow> I (snd (update db (Some e, release, u, t)))"
  shows "I db \<Longrightarrow> I (snd (notify_rows api fmt clock today rows alerts db))"
proof (induction rows arbitrary: alerts db clock)
  case Nil
  then show ?case by simp
next
  case (Cons row rows)
  have step: "I (snd (notify_row api fmt (clock 0) today row alerts db))"
    using notify_row_db_cases[of api fmt "clock 0" today row alerts db] Cons.prems del upd
    by (metis (no_types, lifting))
  obtain res db1 where r: "notify_row api fmt (clock 0) today row alerts db = (res, db1)"
    by (cases "notify_row api fmt (clock 0) today row alerts db")
  with step have db1: "I db1" by simp
  show ?case
  proof (cases res)
    case (Inl x)
    then show ?thesis using r db1 by simp
  next
    case (Inr a)
    then show ?thesis using r Cons.IH[OF db1] by simp
  qed
qed

lemma notify_invariant:
  assumes del: "\<And>db u t. I db \<Longrightarrow> I (snd (delete db u t))"
    and upd: "\<And>db e release u t. I db \<Longrightarrow> midnight release \<Longrightarrow> I (snd (update db (Some e, release, u, t)))"
    and "I db"
  shows "I (snd (notify api fmt now clock db))"
proof (cases "query_released db (replace_midnight now)")
  case (Inl x)
  then show ?thesis using assms(3) by (simp add: notify_def Let_def catch_and_log_def)
next
  case (Inr due)
  have "I (snd (notify_rows api fmt clock (replace_midnight now) due [] db))"
    using notify_rows_invariant[of I, OF del upd assms(3)] by blast
  then show ?thesis using Inr
    by (auto simp: notify_def Let_def catch_and_log_def split: prod.splits sum.splits)
qed

lemma episode_loop_db_cases:
  "snd (episode_loop now u un t tn season n eps message db) = db
   \<or> (\<exists>r. user_id r = u \<and> title_id r = t \<and> midnight (title_release r)
          \<and> snd (episode_loop now u un t tn season n eps message db) = snd (insert_db db r))"
proof (induction eps arbitrary: message)
  case Nil
  then show ?case by (simp split: option.splits)
next
  case (Cons e eps)
  obtain k ep where e: "e = (k, ep)" by (cases e)
  show ?case
  proof (cases "episode_date (original_air_date ep)")
    case (Inl x)
    then show ?thesis by (simp add: e)
  next
    case (Inr d)
    show ?thesis
    proof (cases d)
      case None
      then show ?thesis using Inr Cons.IH by (simp add: e)
    next
      case (Some p)
      obtain s release where p: "p = (s, release)" by (cases p)
      have m: "midnight release" using Inr Some p episode_date_midnight by blast
      show ?thesis
      proof (cases "dt_less release now")
        case True
        then show ?thesis using Inr Some p Cons.IH by (simp add: e)
      next
        case False
        let ?r = "\<lparr>user_id = u, user_name = un, title_id = t, title_name = tn,
                   title_episode_id = Some (movieID ep), title_release = release\<rparr>"
        have "snd (episode_loop now u un t tn season n (e # eps) message db) = snd (insert_db db ?r)"
          using False Inr Some p by (simp add: e split: prod.splits)
        moreover have "user_id ?r = u \<and> title_id ?r = t \<and> midnight (title_release ?r)"
          using m by simp
        ultimately show ?thesis by blast
      qed
    qed
  qed
qed

lemma get_episode_release_date_db_cases:
  "snd (get_episode_release_date api now db u un t tn) = db
   \<or> (\<exists>r. user_id r = u \<and> title_id r = t \<and> midnight (title_release r)
          \<and> snd (get_episode_release_date api now db u un t tn) = snd (insert_db db r))"
proof -
  have c: "snd (catch_and_log id x) = snd x" for x :: "(exn + string) \<times> database"
    by (auto simp: catch_and_log_def split: prod.splits sum.splits)
  show ?thesis
    unfolding get_episode_release_date_def c
    using episode_loop_db_cases
    by (auto split: sum.splits option.splits list.splits)
qed

lemma snd_catch_and_log: "snd (catch_and_log f x) = snd x"
  by (auto simp: catch_and_log_def split: prod.splits sum.splits)

lemma snd_case_result: "snd (case x of (m, d) \<Rightarrow> (f m, d)) = snd x"
  by (cases x) simp

lemma get_movie_release_date_db_cases:
  "snd (get_movie_release_date api now db u un t tn) = db
   \<or> (\<exists>r. user_id r = u \<and> title_id r = t \<and> midnight (title_release r)
          \<and> snd (get_movie_release_date api now db u un t tn) = snd (insert_db db r))"
proof -
  have "snd (get_movie_release_date api now db u un t tn) = db
        \<or> (\<exists>release. midnight release
              \<and> snd (get_movie_release_date api now db u un t tn) =
                snd (insert_db db \<lparr>user_id = u, user_name = un, title_id = t, title_name = tn,
                                   title_episode_id = None, title_release = release\<rparr>))"
    unfolding get_movie_release_date_def snd_catch_and_log
    by (auto simp: snd_case_result split: sum.splits option.splits list.splits
             dest: movie_date_midnight)
  then show ?thesis
  proof
    assume "snd (get_movie_release_date api now db u un t tn) = db"
    then show ?thesis by simp
  next
    assume "\<exists>release. midnight release
              \<and> snd (get_movie_release_date api now db u un t tn) =
                snd (insert_db db \<lparr>user_id = u, user_name = un, title_id = t, title_name = tn,
                                   title_episode_id = None, title_release = release\<rparr>)"
    then obtain release where m: "midnight release"
      and eq: "snd (get_movie_release_date api now db u un t tn) =
                snd (insert_db db \<lparr>user_id = u, user_name = un, title_id = t, title_name = tn,
                                   title_episode_id = None, title_release = release\<rparr>)"
      by blast
    let ?r = "\<lparr>user_id = u, user_name = un, title_id = t, title_name = tn,
               title_episode_id = None, title_release = release\<rparr>"
    have "user_id ?r = u \<and> title_id ?r = t \<and> midnight (title_release ?r)" using m by simp
    with eq show ?thesis by blast
  qed
qed

lemma enable_db_cases:
  "snd (enable api now db u un t) = db
   \<or> (\<exists>r. user_id r = u \<and> title_id r = t \<and> midnight (title_release r)
          \<and> snd (enable api now db u un t) = snd (insert_db db r))"
proof (cases "get_movie api t")
  case (Inl x)
  then show ?thesis by (simp add: enable_def catch_and_log_def)
next
  case (Inr m)
  show ?thesis
  proof (cases "truthy (seasons m)")
    case True
    have "snd (enable api now db u un t) =
          snd (get_episode_release_date api now db u un t (long_imdb_title m))"
      using Inr True by (simp add: enable_def snd_catch_and_log snd_case_result)
    then show ?thesis
      using get_episode_release_date_db_cases[of api now db u un t "long_imdb_title m"] by simp
  next
    case False
    have "snd (enable api now db u un t) =
          snd (get_movie_release_date api now db u un t (long_imdb_title m))"
      using Inr False by (simp add: enable_def snd_catch_and_log snd_case_result)
    then show ?thesis
      using get_movie_release_date_db_cases[of api now db u un t "long_imdb_title m"] by simp
  qed
qed


subsection \<open>Invariants of the store\<close>

lemma delete_Some: "delete (Some rows) u t = (''Alert disabled.'', Some (filter (\<lambda>r. \<not> same_key u t r) rows))"
  by (simp add: delete_def)

lemma unique_keys_create: "unique_keys db \<Longrightarrow> unique_keys (create_db db)"
  by (cases db) (simp_all add: create_db_def create_table_def unique_keys_def)

lemma unique_keys_delete: "unique_keys db \<Longrightarrow> unique_keys (snd (delete db u t))"
  by (cases db) (simp_all add: delete_def unique_keys_def distinct_map_filter)

lemma unique_keys_update: "unique_keys db \<Longrightarrow> unique_keys (snd (update db v))"
proof (cases db)
  case None
  then show ?thesis by (simp add: update_def unique_keys_def split: prod.splits)
next
  case (Some rows)
  obtain e release u t where v: "v = (e, release, u, t)" by (cases v)
  have k: "(\<lambda>r. (user_id r, title_id r))
             \<circ> (\<lambda>r. if same_key u t r then r\<lparr>title_episode_id := e, title_release := release\<rparr> else r)
           = (\<lambda>r. (user_id r, title_id r))"
    by (auto simp: fun_eq_iff)
  show "unique_keys db \<Longrightarrow> ?thesis"
    by (simp add: Some v update_def unique_keys_def k)
qed

lemma unique_keys_insert:
  assumes "unique_keys db" and "query_user_alert db (user_id r) (title_id r) = Inr None"
  shows "unique_keys (snd (insert_db db r))"
proof (cases db)
  case None
  then show ?thesis by (simp add: insert_db_def unique_keys_def)
next
  case (Some rows)
  from assms(2) have "filter (same_key (user_id r) (title_id r)) rows = []"
    by (simp add: Some query_user_alert_def split: list.splits)
  then have "(user_id r, title_id r) \<notin> set (map (\<lambda>r. (user_id r, title_id r)) rows)"
    by (auto simp: filter_empty_conv same_key_def)
  then show ?thesis using assms(1) by (simp add: Some insert_db_def unique_keys_def)
qed

lemma writes_midnight_refl: "writes_midnight db db"
  by (cases db) (simp_all add: writes_midnight_def list_all_iff)

lemma writes_midnight_delete:
  "writes_midnight db0 db \<Longrightarrow> writes_midnight db0 (snd (delete db u t))"
  by (cases db) (auto simp: writes_midnight_def delete_def list_all_iff)

lemma writes_midnight_update:
  "writes_midnight db0 db \<Longrightarrow> midnight release \<Longrightarrow>
   writes_midnight db0 (snd (update db (e, release, u, t)))"
  by (cases db) (auto simp: writes_midnight_def update_def list_all_iff)

lemma writes_midnight_insert:
  "writes_midnight db0 db \<Longrightarrow> midnight (title_release r) \<Longrightarrow>
   writes_midnight db0 (snd (insert_db db r))"
  by (cases db) (auto simp: writes_midnight_def insert_db_def list_all_iff)

lemma due_rows_midnight:
  "query_released (Some rows) (replace_midnight now) =
   query_released (Some (filter (\<lambda>r. midnight (title_release r)) rows)) (replace_midnight now)"
proof -
  have "filter (\<lambda>r. title_release r = replace_midnight now) rows =
        filter (\<lambda>r. title_release r = replace_midnight now) (filter (\<lambda>r. midnight (title_release r)) rows)"
    using midnight_replace[of now] by (auto intro: filter_cong)
  then show ?thesis by (simp add: query_released_def)
qed

section \<open>The claims\<close>

subsection \<open>C1: the scan of the season in the series subscribe path\<close>

text \<open>
  Claim C1 says that the scan stops at the first episode that lacks a usable date,
  returns the status "unable to get episode release date", writes no record and looks
  at no later episode. The loop has no exit on that branch: in the sample series
  \<open>tt002\<close> the first episode has no air date and the second one is dated 12 Jun. 2030;
  subscribing on 12 June 2024 records the second episode and returns the status of the
  insertion.
\<close>

theorem series_scan_stops_counterexample:
  "lacks_date (sample_episode ''e6'' None None)
   \<and> get_movie_episodes sample_api ''tt002''
       = Inr (Some [(1, [(1, sample_episode ''e6'' None None),
                         (2, sample_episode ''e7'' (Some ''12 Jun. 2030'') None)])])
   \<and> enable sample_api sample_now (Some []) ''42'' ''Ann'' ''tt002''
       = (''Alert enabled.'',
          Some [\<lparr>user_id = ''42'', user_name = ''Ann'', title_id = ''tt002'',
                 title_name = Some ''Show (2029)'', title_episode_id = Some ''e7'',
                 title_release = mk_date 2030 6 12\<rparr>])
   \<and> fst (enable sample_api sample_now (Some []) ''42'' ''Ann'' ''tt002'')
       \<noteq> ''Unable to get episode release date''"
  by code_simp

text \<open>
  Claim C1, amended. In the subscribe path for a series (a title with a season map) an
  episode of the current season that lacks a usable date does not end the scan: it
  only sets the pending status to "Unable to get episode release date", and the scan
  goes on. Let the episodes \<open>pre\<close> at the head of the season all be passed over,
  at least one of them for lack of a usable date. If they are the whole season, the
  operation returns that status and leaves the database as it was. If the next
  episode has a date that parses and is not before \<open>now\<close>, the operation inserts the
  record of that episode and returns the status of the insertion.
\<close>

theorem series_scan_goes_on:
  assumes "get_movie api tid = Inr m" and "truthy (seasons m)"
    and "get_movie_episodes api tid = Inr (Some ((season, pre @ rest) # others))"
    and "list_all (passed_over now (length (pre @ rest))) pre"
    and "list_ex (\<lambda>e. lacks_date (snd e)) pre"
  shows "(rest = [] \<longrightarrow>
            enable api now db uid uname tid = (''Unable to get episode release date'', db))
       \<and> (rest = (k, fut) # post \<and> episode_date (original_air_date fut) = Inr (Some (s, d))
            \<and> \<not> dt_less d now \<longrightarrow>
            enable api now (Some rows) uid uname tid =
              (''Alert enabled.'',
               Some (rows @ [\<lparr>user_id = uid, user_name = uname, title_id = tid,
                               title_name = long_imdb_title m,
                               title_episode_id = Some (movieID fut), title_release = d\<rparr>])))"
proof -
  have en: "enable api now db' uid uname tid =
        catch_and_log id (episode_loop now uid uname tid (long_imdb_title m) season
           (length (pre @ rest)) rest (Some ''Unable to get episode release date'') db')" for db'
    using assms(1-3, 5)
      episode_loop_passed_over[OF assms(4), of uid uname tid "long_imdb_title m" season rest None db']
    by (simp add: enable_def get_episode_release_date_def catch_and_log_def
             split: prod.splits sum.splits)
  show ?thesis
    by (auto simp: en catch_and_log_def insert_db_def)
qed

theorem series_scan_goes_on_witness:
  "enable sample_api sample_now (Some []) ''42'' ''Ann'' ''tt003''
     = (''Unable to get episode release date'', Some [])
   \<and> enable sample_api sample_now (Some []) ''42'' ''Ann'' ''tt002''
     = (''Alert enabled.'',
        Some ([] @ [\<lparr>user_id = ''42'', user_name = ''Ann'', title_id = ''tt002'',
                      title_name = long_imdb_title (sample_title ''tt002'' ''Show (2029)'' (Some [''1''])),
                      title_episode_id = Some (movieID (sample_episode ''e7'' (Some ''12 Jun. 2030'') None)),
                      title_release = mk_date 2030 6 12\<rparr>]))"
proof -
  let ?e6 = "sample_episode ''e6'' None None"
  let ?e7 = "sample_episode ''e7'' (Some ''12 Jun. 2030'') None"
  let ?e8 = "sample_episode ''e8'' (Some ''TBA'') None"
  let ?e9 = "sample_episode ''e9'' (Some ''2 Jan. 2020'') None"
  let ?e10 = "sample_episode ''e10'' None None"
  let ?all = "[(1, ?e8), (2, ?e9), (3, ?e10)]"
  have m3: "get_movie sample_api ''tt003'' = Inr (sample_title ''tt003'' ''Serial (2028)'' (Some [''1'']))"
    by code_simp
  have s3: "truthy (seasons (sample_title ''tt003'' ''Serial (2028)'' (Some [''1''])))"
    by code_simp
  have e3: "get_movie_episodes sample_api ''tt003'' = Inr (Some ((1, ?all @ []) # []))"
    by code_simp
  have p3: "list_all (passed_over sample_now (length (?all @ []))) ?all"
    by code_simp
  have b3: "list_ex (\<lambda>e. lacks_date (snd e)) ?all"
    by code_simp
  have m2: "get_movie sample_api ''tt002'' = Inr (sample_title ''tt002'' ''Show (2029)'' (Some [''1'']))"
    by code_simp
  have s2: "truthy (seasons (sample_title ''tt002'' ''Show (2029)'' (Some [''1''])))"
    by code_simp
  have e2: "get_movie_episodes sample_api ''tt002'' = Inr (Some ((1, [(1, ?e6)] @ [(2, ?e7)]) # []))"
    by code_simp
  have p2: "list_all (passed_over sample_now (length ([(1, ?e6)] @ [(2, ?e7)]))) [(1, ?e6)]"
    by code_simp
  have b2: "list_ex (\<lambda>e. lacks_date (snd e)) [(1, ?e6)]"
    by code_simp
  have d2: "episode_date (original_air_date ?e7) = Inr (Some (''12 Jun 2030'', mk_date 2030 6 12))"
    by code_simp
  have f2: "\<not> dt_less (mk_date 2030 6 12) sample_now"
    by code_simp
  from series_scan_goes_on[OF m3 s3 e3 p3 b3, where db = "Some []" and uid = "''42''" and uname = "''Ann''"]
  have a: "enable sample_api sample_now (Some []) ''42'' ''Ann'' ''tt003''
             = (''Unable to get episode release date'', Some [])"
    by simp
  from series_scan_goes_on[OF m2 s2 e2 p2 b2, where k = 2 and fut = ?e7 and post = "[]"
         and s = "''12 Jun 2030''" and d = "mk_date 2030 6 12" and rows = "[]" and uid = "''42''"
         and uname = "''Ann''"] d2 f2
  have b: "enable sample_api sample_now (Some []) ''42'' ''Ann'' ''tt002''
     = (''Alert enabled.'',
        Some ([] @ [\<lparr>user_id = ''42'', user_name = ''Ann'', title_id = ''tt002'',
                      title_name = long_imdb_title (sample_title ''tt002'' ''Show (2029)'' (Some [''1''])),
                      title_episode_id = Some (movieID ?e7),
                      title_release = mk_date 2030 6 12\<rparr>]))"
    by simp
  from a b show ?thesis by simp
qed

subsection \<open>C2: an exception while the tick processes a due row\<close>

text \<open>
  Claim C2 says that a fault on one due record leaves the tick running, so that the
  other due records are processed and their notifications returned. The loop of
  \<^verbatim>\<open>notify\<close> has no handler of its own, only the decorator around the whole
  function. With two rows due on 12 June 2024, a movie row first and then a series row
  whose episode the provider refuses, the tick deletes the movie row and returns the
  error string, without the notification it had accumulated for the movie; with the
  two rows in the other order it returns the error string and the movie row is never
  processed. Alone, the movie row is deleted and notified.
\<close>

theorem tick_independent_counterexample:
  "get_episode sample_api ''e77'' = Inl ProviderError
   \<and> notify sample_api sample_fmt sample_now sample_clock
        (Some [sample_alert ''43'' ''tt001'' None (mk_date 2024 6 12),
               sample_alert ''42'' ''tt002'' (Some ''e77'') (mk_date 2024 6 12)])
       = (Inl ''Unexpected error occured.'',
          Some [sample_alert ''42'' ''tt002'' (Some ''e77'') (mk_date 2024 6 12)])
   \<and> notify sample_api sample_fmt sample_now sample_clock
        (Some [sample_alert ''42'' ''tt002'' (Some ''e77'') (mk_date 2024 6 12),
               sample_alert ''43'' ''tt001'' None (mk_date 2024 6 12)])
       = (Inl ''Unexpected error occured.'',
          Some [sample_alert ''42'' ''tt002'' (Some ''e77'') (mk_date 2024 6 12),
                sample_alert ''43'' ''tt001'' None (mk_date 2024 6 12)])
   \<and> notify sample_api sample_fmt sample_now sample_clock
        (Some [sample_alert ''43'' ''tt001'' None (mk_date 2024 6 12)])
       = (Inr [(''43'', ''Movie is out!'' @ [nl, nl] @ ''<b>tt001</b>'')], Some [])"
  by code_simp

text \<open>
  Claim C2, amended. In the daily tick an exception is tolerated only where a decorated
  call absorbs it: the store, \<^verbatim>\<open>_update_episode\<close> and the formatting of the message
  return an error value instead, and when no due row raises in the body of the loop
  itself (\<open>row_fault\<close>) the tick runs through all due rows and returns the list it
  accumulated. When a due row does raise there (the provider refuses its episode or
  movie, the current episode has no air date, or that date fails the strict parser),
  the whole tick is aborted: \<^verbatim>\<open>notify\<close> returns the string "Unexpected error
  occured." in place of the list, so the notifications accumulated for the rows before
  it are not returned, the rows after it are not processed, and the database keeps
  exactly what was written for the rows before it.
\<close>

theorem tick_aborts_on_fault:
  assumes "query_released db (replace_midnight now) = Inr due"
  shows "(list_all (\<lambda>r. row_fault api r = None) due \<longrightarrow>
            (\<exists>alerts db'. notify_rows api fmt clock (replace_midnight now) due [] db = (Inr alerts, db')
                          \<and> notify api fmt now clock db = (Inr alerts, db')))
       \<and> (due = pre @ row # post \<and> list_all (\<lambda>r. row_fault api r = None) pre
            \<and> row_fault api row = Some e \<longrightarrow>
            notify api fmt now clock db =
              (Inl unexpected_error,
               snd (notify_rows api fmt clock (replace_midnight now) pre [] db)))"
proof -
  have ok: "\<exists>alerts db'. notify_rows api fmt clock (replace_midnight now) due [] db = (Inr alerts, db')
                          \<and> notify api fmt now clock db = (Inr alerts, db')"
    if "list_all (\<lambda>r. row_fault api r = None) due"
  proof -
    from notify_rows_no_fault[OF that] obtain a1 db1
      where p: "notify_rows api fmt clock (replace_midnight now) due [] db = (Inr a1, db1)" by blast
    have "notify api fmt now clock db = (Inr a1, db1)"
      using assms by (simp add: notify_def Let_def catch_and_log_def p)
    with p show ?thesis by blast
  qed
  have abort: "notify api fmt now clock db =
              (Inl unexpected_error,
               snd (notify_rows api fmt clock (replace_midnight now) pre [] db))"
    if d: "due = pre @ row # post" and nf: "list_all (\<lambda>r. row_fault api r = None) pre"
      and f: "row_fault api row = Some e"
  proof -
    from notify_rows_no_fault[OF nf] obtain a1 db1
      where p: "notify_rows api fmt clock (replace_midnight now) pre [] db = (Inr a1, db1)" by blast
    show ?thesis
      using assms d
      by (simp add: notify_def Let_def catch_and_log_def notify_rows_append p
                    notify_row_fault[OF f])
  qed
  show ?thesis using ok abort by blast
qed

theorem tick_aborts_on_fault_witness:
  "(\<exists>alerts db'. notify_rows sample_api sample_fmt sample_clock (replace_midnight sample_now)
                    [(''43'', ''tt001'', None)] []
                    (Some [sample_alert ''43'' ''tt001'' None (mk_date 2024 6 12)]) = (Inr alerts, db')
                 \<and> notify sample_api sample_fmt sample_now sample_clock
                     (Some [sample_alert ''43'' ''tt001'' None (mk_date 2024 6 12)]) = (Inr alerts, db'))
   \<and> notify sample_api sample_fmt sample_now sample_clock
        (Some [sample_alert ''43'' ''tt001'' None (mk_date 2024 6 12),
               sample_alert ''42'' ''tt002'' (Some ''e77'') (mk_date 2024 6 12)])
       = (Inl unexpected_error,
          snd (notify_rows sample_api sample_fmt sample_clock (replace_midnight sample_now)
                 [(''43'', ''tt001'', None)] []
                 (Some [sample_alert ''43'' ''tt001'' None (mk_date 2024 6 12),
                        sample_alert ''42'' ''tt002'' (Some ''e77'') (mk_date 2024 6 12)])))"
proof -
  let ?movie = "sample_alert ''43'' ''tt001'' None (mk_date 2024 6 12)"
  let ?series = "sample_alert ''42'' ''tt002'' (Some ''e77'') (mk_date 2024 6 12)"
  have q1: "query_released (Some [?movie]) (replace_midnight sample_now) = Inr [(''43'', ''tt001'', None)]"
    by code_simp
  have n1: "list_all (\<lambda>r. row_fault sample_api r = None) [(''43'', ''tt001'', None)]"
    by code_simp
  have q2: "query_released (Some [?movie, ?series]) (replace_midnight sample_now)
              = Inr [(''43'', ''tt001'', None), (''42'', ''tt002'', Some ''e77'')]"
    by code_simp
  have d2: "[(''43'', ''tt001'', None), (''42'', ''tt002'', Some ''e77'')]
              = [(''43'', ''tt001'', None)] @ (''42'', ''tt002'', Some ''e77'') # []"
    by simp
  have f2: "row_fault sample_api (''42'', ''tt002'', Some ''e77'') = Some ProviderError"
    by code_simp
  from tick_aborts_on_fault[OF q1, where api = sample_api and fmt = sample_fmt and clock = sample_clock] n1
  have a: "\<exists>alerts db'. notify_rows sample_api sample_fmt sample_clock (replace_midnight sample_now)
                    [(''43'', ''tt001'', None)] [] (Some [?movie]) = (Inr alerts, db')
                 \<and> notify sample_api sample_fmt sample_now sample_clock (Some [?movie]) = (Inr alerts, db')"
    by blast
  from tick_aborts_on_fault[OF q2, where api = sample_api and fmt = sample_fmt and clock = sample_clock
         and pre = "[(''43'', ''tt001'', None)]" and row = "(''42'', ''tt002'', Some ''e77'')"
         and post = "[]" and e = ProviderError] d2 n1 f2
  have b: "notify sample_api sample_fmt sample_now sample_clock (Some [?movie, ?series])
       = (Inl unexpected_error,
          snd (notify_rows sample_api sample_fmt sample_clock (replace_midnight sample_now)
                 [(''43'', ''tt001'', None)] [] (Some [?movie, ?series])))"
    by blast
  from a b show ?thesis by blast
qed

subsection \<open>C3: a due series row whose next episode has a date\<close>

text \<open>
  Claim C3 says that the tick emits a notification for such a row if and only if the
  new release date equals today. The test of the source is on the air date of the
  current episode, fetched again, not on the new date: the row on episode \<open>e1\<close>, which
  airs on 12 June 2024, is due on that day; the next episode \<open>e2\<close> airs on 19 June;
  the tick moves the row to \<open>e2\<close> and 19 June, which is not today, and still emits
  "Episode is out!!".
\<close>

theorem tick_notifies_on_new_date_counterexample:
  "notify sample_api sample_fmt sample_now sample_clock
     (Some [sample_alert ''42'' ''tt002'' (Some ''e1'') (mk_date 2024 6 12)])
     = (Inr [(''42'', ''Episode is out!!'' @ [nl, nl] @ ''<b>e1</b>'')],
        Some [sample_alert ''42'' ''tt002'' (Some ''e2'') (mk_date 2024 6 19)])
   \<and> mk_date 2024 6 19 \<noteq> replace_midnight sample_now"
  by code_simp

text \<open>
  Claim C3, amended. For a due series row whose current episode is fetched with an air
  date that parses (to \<open>cd\<close>), whose next-episode link exists and whose next episode has
  an air date that passes the pattern and parses (to \<open>release\<close>), the tick updates the
  rows of that user and title to the next episode and its date, deletes nothing, and
  emits the notification "Episode is out!!" for the row if and only if the air date of
  the current episode equals today; the new release date plays no part in it. This
  holds for the row inside any tick, and for the whole of \<^verbatim>\<open>notify\<close> when the row is
  the only one due.
\<close>

theorem tick_next_episode_known:
  assumes "e \<noteq> []" and "get_episode api e = Inr cur" and "original_air_date cur = Some air"
    and "strptime short_months (remove_char CHR '','' air) = Inr cd"
    and "next_episode cur = Some nid" and "nid \<noteq> []" and "get_episode api nid = Inr nxt"
    and "next_episode_date (original_air_date nxt) = Inr (Some release)"
  shows "notify_row api fmt now today (u, t, Some e) alerts (Some rows) =
           (Inr (alerts @ (if cd = today then [(u, ''Episode is out!!'' @ [nl, nl] @ fmt cur)] else [])),
            Some (map (set_episode u t nid release) rows))
       \<and> length (map (set_episode u t nid release) rows) = length rows
       \<and> (query_released (Some rows) (replace_midnight now) = Inr [(u, t, Some e)] \<longrightarrow>
            notify api fmt now clock (Some rows) =
              (Inr (if cd = replace_midnight now
                    then [(u, ''Episode is out!!'' @ [nl, nl] @ fmt cur)] else []),
               Some (map (set_episode u t nid release) rows)))"
proof -
  have row: "notify_row api fmt now' today' (u, t, Some e) alerts' (Some rows) =
           (Inr (alerts' @ (if cd = today' then [(u, ''Episode is out!!'' @ [nl, nl] @ fmt cur)] else [])),
            Some (map (set_episode u t nid release) rows))" for now' today' alerts'
    using assms(6)
    by (simp add: notify_row_series[OF assms(1-4)] update_episode_known[OF assms(5-8)] truthy_def)
  show ?thesis
    by (auto simp: row notify_single)
qed

theorem tick_next_episode_known_witness:
  "notify sample_api sample_fmt sample_now sample_clock
     (Some [sample_alert ''42'' ''tt002'' (Some ''e1'') (mk_date 2024 6 12)])
     = (Inr [(''42'', ''Episode is out!!'' @ [nl, nl]
                      @ sample_fmt (sample_episode ''e1'' (Some ''12 Jun 2024'') (Some ''e2'')))],
        Some (map (set_episode ''42'' ''tt002'' ''e2'' (mk_date 2024 6 19))
                [sample_alert ''42'' ''tt002'' (Some ''e1'') (mk_date 2024 6 12)]))
   \<and> notify sample_api sample_fmt (sample_now\<lparr>day := 13\<rparr>) sample_clock
     (Some [sample_alert ''42'' ''tt002'' (Some ''e1'') (mk_date 2024 6 13)])
     = (Inr [],
        Some (map (set_episode ''42'' ''tt002'' ''e2'' (mk_date 2024 6 19))
                [sample_alert ''42'' ''tt002'' (Some ''e1'') (mk_date 2024 6 13)]))"
proof -
  let ?e1 = "sample_episode ''e1'' (Some ''12 Jun 2024'') (Some ''e2'')"
  let ?e2 = "sample_episode ''e2'' (Some ''19 Jun 2024'') (Some ''e3'')"
  have h1: "''e1'' \<noteq> []" by simp
  have h2: "get_episode sample_api ''e1'' = Inr ?e1" by code_simp
  have h3: "original_air_date ?e1 = Some ''12 Jun 2024''" by code_simp
  have h4: "strptime short_months (remove_char CHR '','' ''12 Jun 2024'') = Inr (mk_date 2024 6 12)"
    by code_simp
  have h5: "next_episode ?e1 = Some ''e2''" by code_simp
  have h6: "''e2'' \<noteq> []" by simp
  have h7: "get_episode sample_api ''e2'' = Inr ?e2" by code_simp
  have h8: "next_episode_date (original_air_date ?e2) = Inr (Some (mk_date 2024 6 19))"
    by code_simp
  have q12: "query_released (Some [sample_alert ''42'' ''tt002'' (Some ''e1'') (mk_date 2024 6 12)])
               (replace_midnight sample_now) = Inr [(''42'', ''tt002'', Some ''e1'')]"
    by code_simp
  have q13: "query_released (Some [sample_alert ''42'' ''tt002'' (Some ''e1'') (mk_date 2024 6 13)])
               (replace_midnight (sample_now\<lparr>day := 13\<rparr>)) = Inr [(''42'', ''tt002'', Some ''e1'')]"
    by code_simp
  have t12: "mk_date 2024 6 12 = replace_midnight sample_now" by code_simp
  have t13: "mk_date 2024 6 12 \<noteq> replace_midnight (sample_now\<lparr>day := 13\<rparr>)" by code_simp
  note k = tick_next_episode_known[OF h1 h2 h3 h4 h5 h6 h7 h8, where fmt = sample_fmt and clock = sample_clock
             and u = "''42''" and t = "''tt002''"]
  from k[where now = sample_now
           and rows = "[sample_alert ''42'' ''tt002'' (Some ''e1'') (mk_date 2024 6 12)]"] q12 t12
  have a: "notify sample_api sample_fmt sample_now sample_clock
     (Some [sample_alert ''42'' ''tt002'' (Some ''e1'') (mk_date 2024 6 12)])
     = (Inr [(''42'', ''Episode is out!!'' @ [nl, nl] @ sample_fmt ?e1)],
        Some (map (set_episode ''42'' ''tt002'' ''e2'' (mk_date 2024 6 19))
                [sample_alert ''42'' ''tt002'' (Some ''e1'') (mk_date 2024 6 12)]))"
    by simp
  from k[where now = "sample_now\<lparr>day := 13\<rparr>"
           and rows = "[sample_alert ''42'' ''tt002'' (Some ''e1'') (mk_date 2024 6 13)]"] q13 t13
  have b: "notify sample_api sample_fmt (sample_now\<lparr>day := 13\<rparr>) sample_clock
     (Some [sample_alert ''42'' ''tt002'' (Some ''e1'') (mk_date 2024 6 13)])
     = (Inr [],
        Some (map (set_episode ''42'' ''tt002'' ''e2'' (mk_date 2024 6 19))
                [sample_alert ''42'' ''tt002'' (Some ''e1'') (mk_date 2024 6 13)]))"
    by simp
  from a b show ?thesis by simp
qed

subsection \<open>C4: subscribing to a movie\<close>

text \<open>
  Claim C4. For a movie (a title without a season map) whose first USA release entry
  without notes has a date that passes the pattern and parses to \<open>release_date\<close>:
  if that date is in the future (later than \<open>now\<close>), \<^verbatim>\<open>enable\<close> appends exactly one
  row to the table, with no episode identifier and with that release date, and returns
  "Alert enabled."; otherwise it writes nothing and returns "Released on", the date
  string and "in USA".
\<close>

theorem enable_movie:
  assumes "get_movie api tid = Inr m"
    and "\<not> truthy (seasons m)"
    and "get_movie_release_info api tid = Inr (Some entries)"
    and "usa_release_dates entries = Inr (date # others)"
    and "movie_date date = Inr (Some release_date)"
  shows "enable api now (Some rows) uid uname tid =
           (if dt_less now release_date
            then (''Alert enabled.'',
                  Some (rows @ [\<lparr>user_id = uid, user_name = uname, title_id = tid,
                                  title_name = long_imdb_title m, title_episode_id = None,
                                  title_release = release_date\<rparr>]))
            else (''Released on '' @ date @ '' in USA'', Some rows))"
  using assms usa_nonempty[OF assms(4)]
  by (simp add: enable_def get_movie_release_date_def catch_and_log_def insert_db_def truthy_def)

theorem enable_movie_witness:
  "enable sample_api sample_now (Some []) ''42'' ''Ann'' ''tt001''
     = (''Alert enabled.'',
        Some ([] @ [\<lparr>user_id = ''42'', user_name = ''Ann'', title_id = ''tt001'',
                      title_name = long_imdb_title (sample_title ''tt001'' ''Film (2030)'' None),
                      title_episode_id = None, title_release = mk_date 2030 6 15\<rparr>]))
   \<and> enable sample_api (mk_date 2031 1 1) (Some []) ''42'' ''Ann'' ''tt001''
     = (''Released on '' @ ''15 June 2030'' @ '' in USA'', Some [])"
proof -
  have m: "get_movie sample_api ''tt001'' = Inr (sample_title ''tt001'' ''Film (2030)'' None)"
    by code_simp
  have s: "\<not> truthy (seasons (sample_title ''tt001'' ''Film (2030)'' None))"
    by code_simp
  have r: "get_movie_release_info sample_api ''tt001'' = Inr (Some sample_releases)"
    by (simp add: sample_api_def)
  have u: "usa_release_dates sample_releases = Inr (''15 June 2030'' # [])"
    by code_simp
  have d: "movie_date ''15 June 2030'' = Inr (Some (mk_date 2030 6 15))"
    by code_simp
  have f: "dt_less sample_now (mk_date 2030 6 15)"
    by code_simp
  have p: "\<not> dt_less (mk_date 2031 1 1) (mk_date 2030 6 15)"
    by code_simp
  note k = enable_movie[OF m s r u d, where rows = "[]" and uid = "''42''" and uname = "''Ann''"]
  from k[where now = sample_now] f
  have a: "enable sample_api sample_now (Some []) ''42'' ''Ann'' ''tt001''
     = (''Alert enabled.'',
        Some ([] @ [\<lparr>user_id = ''42'', user_name = ''Ann'', title_id = ''tt001'',
                      title_name = long_imdb_title (sample_title ''tt001'' ''Film (2030)'' None),
                      title_episode_id = None, title_release = mk_date 2030 6 15\<rparr>]))"
    by simp
  from k[where now = "mk_date 2031 1 1"] p
  have b: "enable sample_api (mk_date 2031 1 1) (Some []) ''42'' ''Ann'' ''tt001''
     = (''Released on '' @ ''15 June 2030'' @ '' in USA'', Some [])"
    by simp
  from a b show ?thesis by simp
qed

subsection \<open>C5: a due series row whose next episode has no usable date\<close>

text \<open>
  Claim C5 says that for every due series record whose next-episode link exists and
  whose next episode lacks a usable air date, the tick stores today plus exactly seven
  days with the identifier of the current episode. Two things stand against it.
  The tick parses the air date of the current episode first, with the commas removed
  and no check of the pattern: the row on episode \<open>e11\<close>, whose air date is
  \<open>12 Jun. 2024\<close> and whose next episode \<open>e3\<close> has the date \<open>TBA\<close>, makes
  \<^verbatim>\<open>strptime\<close> raise, the tick is aborted and the row is left as it was. And the
  date of the new check is computed from a second reading of the clock, taken when
  the row is updated: when the tick started on 12 June and the clock has passed
  midnight by then, the row on episode \<open>e2\<close> is stored with 20 June, which is today
  plus eight days.
\<close>

theorem tick_placeholder_counterexample:
  "get_episode sample_api ''e11''
     = Inr (sample_episode ''e11'' (Some ''12 Jun. 2024'') (Some ''e3''))
   \<and> get_episode sample_api ''e3'' = Inr (sample_episode ''e3'' (Some ''TBA'') None)
   \<and> \<not> date_check episode_date_regex (Some ''TBA'')
   \<and> notify sample_api sample_fmt sample_now sample_clock
        (Some [sample_alert ''42'' ''tt002'' (Some ''e11'') (mk_date 2024 6 12)])
       = (Inl ''Unexpected error occured.'',
          Some [sample_alert ''42'' ''tt002'' (Some ''e11'') (mk_date 2024 6 12)])
   \<and> get_episode sample_api ''e2''
       = Inr (sample_episode ''e2'' (Some ''19 Jun 2024'') (Some ''e3''))
   \<and> notify sample_api sample_fmt sample_now sample_clock_late
        (Some [sample_alert ''42'' ''tt002'' (Some ''e2'') (mk_date 2024 6 12)])
       = (Inr [], Some [sample_alert ''42'' ''tt002'' (Some ''e2'') (mk_date 2024 6 20)])
   \<and> plus_days (replace_midnight sample_now) 7 = Inr (mk_date 2024 6 19)"
  by code_simp

text \<open>
  Claim C5, amended. Take a due series row that the tick reaches, whose current
  episode is fetched with an air date that the strict parser of the tick accepts,
  whose next-episode link exists and whose next episode lacks a usable air date
  (missing, empty or failing the pattern), and let \<open>now\<close> be the reading of the clock
  when the row is updated, seven days after which are still within the years of
  \<^verbatim>\<open>datetime\<close>. Then the tick updates the rows of that user and title in place: the
  release date becomes the day of \<open>now\<close> plus seven days, at midnight, which is today
  plus exactly seven days when \<open>now\<close> falls on the day the tick started; the episode
  identifier becomes the identifier of the current episode, not of the next; the user
  and title of every row stay as they were. This holds for the row inside any tick;
  when the due rows before it were processed without an exception, the tick goes on
  to the rows after it from the table so updated, and when it is the last due row
  that table is what the tick leaves.
\<close>

theorem tick_placeholder:
  assumes "e \<noteq> []" and "get_episode api e = Inr cur" and "original_air_date cur = Some air"
    and "strptime short_months (remove_char CHR '','' air) = Inr cd"
    and "next_episode cur = Some nid" and "nid \<noteq> []" and "get_episode api nid = Inr nxt"
    and "\<not> date_check episode_date_regex (original_air_date nxt)"
    and "plus_days now 7 = Inr w"
  shows "snd (notify_row api fmt now today (u, t, Some e) alerts (Some rows)) =
           Some (map (set_episode u t (movieID cur) (replace_midnight w)) rows)
       \<and> plus_days (replace_midnight now) 7 = Inr (replace_midnight w)
       \<and> midnight (replace_midnight w)
       \<and> (replace_midnight now = today \<longrightarrow> plus_days today 7 = Inr (replace_midnight w))
       \<and> map user_id (map (set_episode u t (movieID cur) (replace_midnight w)) rows) = map user_id rows
       \<and> map title_id (map (set_episode u t (movieID cur) (replace_midnight w)) rows) = map title_id rows
       \<and> (notify_rows api fmt clock today pre alerts (Some table) = (Inr earlier, Some rows)
            \<and> clock (length pre) = now \<longrightarrow>
            (\<exists>alerts2.
               notify_rows api fmt clock today (pre @ (u, t, Some e) # post) alerts (Some table) =
               notify_rows api fmt (\<lambda>k. clock (Suc (length pre + k))) today post alerts2
                 (Some (map (set_episode u t (movieID cur) (replace_midnight w)) rows))))
       \<and> (query_released (Some table) (replace_midnight start) = Inr (pre @ [(u, t, Some e)])
            \<and> notify_rows api fmt clock (replace_midnight start) pre [] (Some table)
                = (Inr earlier, Some rows)
            \<and> clock (length pre) = now \<longrightarrow>
            snd (notify api fmt start clock (Some table)) =
              Some (map (set_episode u t (movieID cur) (replace_midnight w)) rows))"
proof -
  let ?new = "Some (map (set_episode u t (movieID cur) (replace_midnight w)) rows)"
  have row: "\<exists>alerts2. notify_row api fmt now today' (u, t, Some e) alerts' (Some rows) =
           (Inr alerts2, ?new)" for today' alerts'
    by (simp add: notify_row_series[OF assms(1-4)] update_episode_placeholder[OF assms(5-9)])
  have c1: "snd (notify_row api fmt now today (u, t, Some e) alerts (Some rows)) = ?new"
    using row[of today alerts] by auto
  have c4: "replace_midnight now = today \<Longrightarrow> plus_days today 7 = Inr (replace_midnight w)"
    using plus_days_replace[OF assms(9)] by simp
  have c7: "\<exists>alerts2.
               notify_rows api fmt clock today' (pre @ (u, t, Some e) # post') alerts' (Some table) =
               notify_rows api fmt (\<lambda>k. clock (Suc (length pre + k))) today' post' alerts2 ?new"
    if p: "notify_rows api fmt clock today' pre alerts' (Some table) = (Inr earlier, Some rows)"
      and c: "clock (length pre) = now" for today' alerts' post'
  proof -
    from row[of today' earlier] obtain alerts2
      where r: "notify_row api fmt now today' (u, t, Some e) earlier (Some rows) = (Inr alerts2, ?new)"
      by blast
    have "notify_rows api fmt clock today' (pre @ (u, t, Some e) # post') alerts' (Some table) =
          notify_rows api fmt (\<lambda>k. clock (Suc (length pre + k))) today' post' alerts2 ?new"
      by (simp add: notify_rows_append p c r)
    then show ?thesis by blast
  qed
  have c8: "snd (notify api fmt start clock (Some table)) = ?new"
    if q: "query_released (Some table) (replace_midnight start) = Inr (pre @ [(u, t, Some e)])"
      and p: "notify_rows api fmt clock (replace_midnight start) pre [] (Some table)
                = (Inr earlier, Some rows)"
      and c: "clock (length pre) = now"
  proof -
    from c7[OF p c, where post' = "[]"] obtain alerts2
      where "notify_rows api fmt clock (replace_midnight start) (pre @ [(u, t, Some e)]) []
               (Some table) = (Inr alerts2, ?new)"
      by auto
    then show ?thesis
      using q by (simp add: notify_def Let_def catch_and_log_def)
  qed
  have c7': "notify_rows api fmt clock today pre alerts (Some table) = (Inr earlier, Some rows)
            \<and> clock (length pre) = now \<longrightarrow>
            (\<exists>alerts2.
               notify_rows api fmt clock today (pre @ (u, t, Some e) # post) alerts (Some table) =
               notify_rows api fmt (\<lambda>k. clock (Suc (length pre + k))) today post alerts2 ?new)"
    using c7 by blast
  show ?thesis
    using c1 c4 c7' c8 plus_days_replace[OF assms(9)]
    by (simp add: midnight_replace set_episode_keys)
qed

theorem tick_placeholder_witness:
  "plus_days (replace_midnight sample_now) 7 = Inr (mk_date 2024 6 19)
   \<and> (\<exists>alerts2.
        notify_rows sample_api sample_fmt sample_clock (replace_midnight sample_now)
          ([(''43'', ''tt001'', None)] @ (''42'', ''tt002'', Some ''e2'') # [(''44'', ''tt001'', None)]) []
          (Some [sample_alert ''43'' ''tt001'' None (mk_date 2024 6 12),
                 sample_alert ''42'' ''tt002'' (Some ''e2'') (mk_date 2024 6 12),
                 sample_alert ''42'' ''tt003'' (Some ''e2'') (mk_date 2024 6 14)])
        = notify_rows sample_api sample_fmt (\<lambda>k. sample_clock (Suc (length [(''43'', ''tt001'', None :: string option)] + k)))
            (replace_midnight sample_now) [(''44'', ''tt001'', None)] alerts2
            (Some [sample_alert ''42'' ''tt002'' (Some ''e2'') (mk_date 2024 6 19),
                   sample_alert ''42'' ''tt003'' (Some ''e2'') (mk_date 2024 6 14)]))
   \<and> snd (notify sample_api sample_fmt sample_now sample_clock
            (Some [sample_alert ''43'' ''tt001'' None (mk_date 2024 6 12),
                   sample_alert ''42'' ''tt002'' (Some ''e2'') (mk_date 2024 6 12),
                   sample_alert ''42'' ''tt003'' (Some ''e2'') (mk_date 2024 6 14)]))
     = Some [sample_alert ''42'' ''tt002'' (Some ''e2'') (mk_date 2024 6 19),
             sample_alert ''42'' ''tt003'' (Some ''e2'') (mk_date 2024 6 14)]"
proof -
  let ?e2 = "sample_episode ''e2'' (Some ''19 Jun 2024'') (Some ''e3'')"
  let ?e3 = "sample_episode ''e3'' (Some ''TBA'') None"
  let ?w = "sample_now\<lparr>day := 19\<rparr>"
  let ?table = "[sample_alert ''43'' ''tt001'' None (mk_date 2024 6 12),
                 sample_alert ''42'' ''tt002'' (Some ''e2'') (mk_date 2024 6 12),
                 sample_alert ''42'' ''tt003'' (Some ''e2'') (mk_date 2024 6 14)]"
  let ?rows = "[sample_alert ''42'' ''tt002'' (Some ''e2'') (mk_date 2024 6 12),
                sample_alert ''42'' ''tt003'' (Some ''e2'') (mk_date 2024 6 14)]"
  let ?new = "[sample_alert ''42'' ''tt002'' (Some ''e2'') (mk_date 2024 6 19),
               sample_alert ''42'' ''tt003'' (Some ''e2'') (mk_date 2024 6 14)]"
  let ?pre = "[(''43'', ''tt001'', None :: string option)]"
  let ?a1 = "[(''43'', ''Movie is out!'' @ [nl, nl] @ ''<b>tt001</b>'')]"
  have h1: "''e2'' \<noteq> []" by simp
  have h2: "get_episode sample_api ''e2'' = Inr ?e2" by code_simp
  have h3: "original_air_date ?e2 = Some ''19 Jun 2024''" by code_simp
  have h4: "strptime short_months (remove_char CHR '','' ''19 Jun 2024'') = Inr (mk_date 2024 6 19)"
    by code_simp
  have h5: "next_episode ?e2 = Some ''e3''" by code_simp
  have h6: "''e3'' \<noteq> []" by simp
  have h7: "get_episode sample_api ''e3'' = Inr ?e3" by code_simp
  have h8: "\<not> date_check episode_date_regex (original_air_date ?e3)" by code_simp
  have h9: "plus_days sample_now 7 = Inr ?w" by code_simp
  have t: "replace_midnight sample_now = replace_midnight sample_now" by simp
  have p: "notify_rows sample_api sample_fmt sample_clock (replace_midnight sample_now) ?pre []
             (Some ?table) = (Inr ?a1, Some ?rows)"
    by code_simp
  have c: "sample_clock (length ?pre) = sample_now" by (simp add: sample_clock_def)
  have q: "query_released (Some ?table) (replace_midnight sample_now)
             = Inr (?pre @ [(''42'', ''tt002'', Some ''e2'')])"
    by code_simp
  have r: "replace_midnight ?w = mk_date 2024 6 19" by code_simp
  have v: "map (set_episode ''42'' ''tt002'' (movieID ?e2) (mk_date 2024 6 19)) ?rows = ?new"
    by code_simp
  note k = tick_placeholder[OF h1 h2 h3 h4 h5 h6 h7 h8 h9, where fmt = sample_fmt and u = "''42''"
             and t = "''tt002''" and rows = ?rows and today = "replace_midnight sample_now"
             and alerts = "[]" and clock = sample_clock and pre = ?pre and table = ?table
             and earlier = ?a1 and start = sample_now and post = "[(''44'', ''tt001'', None)]"]
  from k t have a: "plus_days (replace_midnight sample_now) 7 = Inr (replace_midnight ?w)"
    by blast
  from k p c have b: "\<exists>alerts2.
        notify_rows sample_api sample_fmt sample_clock (replace_midnight sample_now)
          (?pre @ (''42'', ''tt002'', Some ''e2'') # [(''44'', ''tt001'', None)]) [] (Some ?table)
        = notify_rows sample_api sample_fmt (\<lambda>k. sample_clock (Suc (length ?pre + k)))
            (replace_midnight sample_now) [(''44'', ''tt001'', None)] alerts2
            (Some (map (set_episode ''42'' ''tt002'' (movieID ?e2) (replace_midnight ?w)) ?rows))"
    by blast
  from k q p c have d: "snd (notify sample_api sample_fmt sample_now sample_clock (Some ?table))
        = Some (map (set_episode ''42'' ''tt002'' (movieID ?e2) (replace_midnight ?w)) ?rows)"
    by blast
  from a b d show ?thesis
    unfolding r v by blast
qed

subsection \<open>C6: the pattern check and the strict parser\<close>

text \<open>
  Claim C6 (the code departs from it). The pattern is checked before the strict parser
  is called, and a string that fails the pattern gives the outcome "no usable date".
  But a string that passes the pattern is not always accepted by the strict parser.
  The next episode's air date \<open>19 Jun. 2024\<close> passes the pattern, which allows one
  character after the month; \<^verbatim>\<open>_update_episode\<close> removes commas, not the period, and
  \<^verbatim>\<open>strptime\<close> raises \<^verbatim>\<open>ValueError\<close>, whereas the subscribe path removes the period
  and parses the same string. The decorator turns the exception into the error string:
  the row is not rescheduled and the tick takes the error string for the identifier of
  a next episode. Likewise \<open>31 June 2024\<close> and \<open>15 June 2024 (limited)\<close> pass the pattern
  of the movie path and make \<^verbatim>\<open>strptime\<close> raise, and \<^verbatim>\<open>enable\<close> returns the error
  string.
\<close>

theorem pattern_passes_parser_raises:
  "date_check episode_date_regex (Some ''19 Jun. 2024'')
   \<and> next_episode_date (Some ''19 Jun. 2024'') = Inl ValueError
   \<and> episode_date (Some ''19 Jun. 2024'') = Inr (Some (''19 Jun 2024'', mk_date 2024 6 19))
   \<and> update_episode sample_api sample_now
        (Some [sample_alert ''42'' ''tt002'' (Some ''e4'') (mk_date 2024 6 12)]) ''42'' ''tt002''
        (sample_episode ''e4'' (Some ''12 Jun 2024'') (Some ''e5''))
       = (Some ''Unexpected error occured.'',
          Some [sample_alert ''42'' ''tt002'' (Some ''e4'') (mk_date 2024 6 12)])
   \<and> re_match movie_date_regex ''31 June 2024''
   \<and> movie_date ''31 June 2024'' = Inl ValueError
   \<and> re_match movie_date_regex ''15 June 2024 (limited)''
   \<and> movie_date ''15 June 2024 (limited)'' = Inl ValueError
   \<and> movie_date ''June 2024'' = Inr None
   \<and> movie_date '''' = Inr None"
  by code_simp

subsection \<open>C7: one row for each user and title\<close>

text \<open>
  Claim C7 says that every reachable state of the store holds at most one row for each
  pair of user and title, and that every core operation preserves this, the insertion
  through \<^verbatim>\<open>enable\<close> among them. The table declares no key, and neither
  \<^verbatim>\<open>insert\<close> nor \<^verbatim>\<open>enable\<close> looks for a row that is there already: from the
  empty database, creating the table and subscribing user \<open>42\<close> to the film \<open>tt001\<close>
  twice leaves two rows with the same user and title.
\<close>

theorem key_uniqueness_counterexample:
  "unique_keys (create_db None)
   \<and> unique_keys (snd (enable sample_api sample_now (create_db None) ''42'' ''Ann'' ''tt001''))
   \<and> enable sample_api sample_now
        (snd (enable sample_api sample_now (create_db None) ''42'' ''Ann'' ''tt001''))
        ''42'' ''Ann'' ''tt001''
       = (''Alert enabled.'',
          Some [\<lparr>user_id = ''42'', user_name = ''Ann'', title_id = ''tt001'',
                 title_name = Some ''Film (2030)'', title_episode_id = None,
                 title_release = mk_date 2030 6 15\<rparr>,
                \<lparr>user_id = ''42'', user_name = ''Ann'', title_id = ''tt001'',
                 title_name = Some ''Film (2030)'', title_episode_id = None,
                 title_release = mk_date 2030 6 15\<rparr>])
   \<and> \<not> unique_keys
         (snd (enable sample_api sample_now
                 (snd (enable sample_api sample_now (create_db None) ''42'' ''Ann'' ''tt001''))
                 ''42'' ''Ann'' ''tt001''))"
  by code_simp

text \<open>
  Claim C7, amended. The store does not enforce that the pair of user and title is
  unique. From a state in which it is unique, creating the table, \<^verbatim>\<open>update\<close>,
  \<^verbatim>\<open>delete\<close>, \<^verbatim>\<open>disable\<close> and the daily tick lead to a state in which it is unique
  again; \<^verbatim>\<open>insert\<close> and \<^verbatim>\<open>enable\<close> do so when the lookup of the key
  (\<^verbatim>\<open>query_user_alert\<close>) finds no row beforehand, which is the check left to the
  caller.
\<close>

theorem key_uniqueness_preserved:
  assumes "unique_keys db"
  shows "unique_keys (create_db db)
       \<and> unique_keys (snd (update db v))
       \<and> unique_keys (snd (delete db u t))
       \<and> unique_keys (snd (disable db u t))
       \<and> unique_keys (snd (notify api fmt now clock db))
       \<and> (query_user_alert db (user_id r) (title_id r) = Inr None \<longrightarrow>
            unique_keys (snd (insert_db db r)))
       \<and> (query_user_alert db u t = Inr None \<longrightarrow>
            unique_keys (snd (enable api now db u un t)))"
proof -
  have d: "snd (disable db u t) = snd (delete db u t)"
    by (simp add: disable_def snd_catch_and_log snd_case_result)
  have n: "unique_keys (snd (notify api fmt now clock db))"
    by (rule notify_invariant[of unique_keys])
       (simp_all add: unique_keys_delete unique_keys_update assms)
  have e: "unique_keys (snd (enable api now db u un t))" if q: "query_user_alert db u t = Inr None"
    using enable_db_cases[of api now db u un t] assms unique_keys_insert[OF assms] q by auto
  show ?thesis
    using assms n e unique_keys_insert[OF assms, of r]
    by (simp add: d unique_keys_create unique_keys_update unique_keys_delete)
qed

theorem key_uniqueness_preserved_witness:
  "unique_keys (create_db (Some [sample_alert ''42'' ''tt002'' (Some ''e1'') (mk_date 2024 6 12)]))
   \<and> unique_keys (snd (notify sample_api sample_fmt sample_now sample_clock
                          (Some [sample_alert ''42'' ''tt002'' (Some ''e1'') (mk_date 2024 6 12)])))
   \<and> unique_keys (snd (insert_db
                          (Some [sample_alert ''42'' ''tt002'' (Some ''e1'') (mk_date 2024 6 12)])
                          (sample_alert ''42'' ''tt001'' None (mk_date 2030 6 15))))
   \<and> unique_keys (snd (enable sample_api sample_now
                          (Some [sample_alert ''42'' ''tt002'' (Some ''e1'') (mk_date 2024 6 12)])
                          ''42'' ''Ann'' ''tt001''))"
proof -
  let ?db = "Some [sample_alert ''42'' ''tt002'' (Some ''e1'') (mk_date 2024 6 12)]"
  let ?r = "sample_alert ''42'' ''tt001'' None (mk_date 2030 6 15)"
  have u: "unique_keys ?db" by code_simp
  have q: "query_user_alert ?db ''42'' ''tt001'' = Inr None" by code_simp
  have q': "query_user_alert ?db (user_id ?r) (title_id ?r) = Inr None" by code_simp
  from key_uniqueness_preserved[OF u, where api = sample_api and fmt = sample_fmt and clock = sample_clock
         and now = sample_now and u = "''42''" and t = "''tt001''" and un = "''Ann''" and r = ?r] q q'
  show ?thesis by blast
qed

subsection \<open>C8: the date resolver on the three sample strings\<close>

text \<open>
  Claim C8. The resolver of the movie path (long month names) maps \<open>15 June 2024\<close> to the
  calendar date 2024-06-15, the resolvers of the episode paths (short month names) map
  \<open>12 Jun 2024\<close> to 2024-06-12, and every one of them maps \<open>TBA\<close> to the outcome "no
  usable date".
\<close>

theorem date_resolver_samples:
  "movie_date ''15 June 2024''
     = Inr (Some \<lparr>year = 2024, month = 6, day = 15, hour = 0, minute = 0, second = 0,
                   microsecond = 0\<rparr>)
   \<and> episode_date (Some ''12 Jun 2024'')
     = Inr (Some (''12 Jun 2024'',
                  \<lparr>year = 2024, month = 6, day = 12, hour = 0, minute = 0, second = 0,
                   microsecond = 0\<rparr>))
   \<and> next_episode_date (Some ''12 Jun 2024'')
     = Inr (Some \<lparr>year = 2024, month = 6, day = 12, hour = 0, minute = 0, second = 0,
                   microsecond = 0\<rparr>)
   \<and> movie_date ''TBA'' = Inr None
   \<and> episode_date (Some ''TBA'') = Inr None
   \<and> next_episode_date (Some ''TBA'') = Inr None"
  by code_simp

subsection \<open>C9: unsubscribing\<close>

text \<open>
  Claim C9. \<^verbatim>\<open>disable\<close> returns a status in every state of the database and raises
  nothing: on the table it removes exactly the rows whose user and title are the ones
  given, keeps the others in their order, and returns "Alert disabled."; without the
  table it returns the error string of the store. A second call on the same key
  returns the same status and leaves the state that the first one left. After it, the
  lookup of the key returns no row: \<^verbatim>\<open>None\<close> on the table, and in no state a row;
  whereas the lookup of the key of a row that is in the table returns a row.
\<close>

theorem disable_idempotent:
  "disable (Some rows) u t
     = (''Alert disabled.'', Some (filter (\<lambda>r. \<not> (user_id r = u \<and> title_id r = t)) rows))
   \<and> disable None u t = (db_error, None)
   \<and> disable (snd (disable db u t)) u t = disable db u t
   \<and> query_user_alert (snd (disable (Some rows) u t)) u t = Inr None
   \<and> (\<forall>name. query_user_alert (snd (disable db u t)) u t \<noteq> Inr (Some name))
   \<and> query_user_alert (Some (r # rows)) (user_id r) (title_id r) = Inr (Some (title_name r))"
proof -
  have 1: "disable (Some rows') u t
             = (''Alert disabled.'', Some (filter (\<lambda>r. \<not> (user_id r = u \<and> title_id r = t)) rows'))"
    for rows'
    by (simp add: disable_def catch_and_log_def delete_def same_key_def)
  have 2: "disable None u t = (db_error, None)"
    by (simp add: disable_def catch_and_log_def delete_def)
  have 3: "disable (snd (disable db u t)) u t = disable db u t"
    by (cases db) (simp_all add: 1 2)
  have 4: "query_user_alert (snd (disable (Some rows') u t)) u t = Inr None" for rows'
    by (simp add: 1 query_user_alert_def same_key_def)
  have 5: "query_user_alert (snd (disable db u t)) u t \<noteq> Inr (Some name)" for name
    by (cases db) (simp_all add: 4, simp add: 2 query_user_alert_def)
  have 6: "query_user_alert (Some (r # rows)) (user_id r) (title_id r) = Inr (Some (title_name r))"
    by (simp add: query_user_alert_def same_key_def)
  show ?thesis using 1 2 3 4 5 6 by blast
qed

text \<open>
  On a table of three rows, unsubscribing user \<open>42\<close> from \<open>tt001\<close> removes that row and
  no other; the lookup finds the row before and nothing after, and a second call
  changes nothing.
\<close>

theorem disable_idempotent_witness:
  "query_user_alert
     (Some [sample_alert ''42'' ''tt001'' None (mk_date 2030 6 15),
            sample_alert ''42'' ''tt002'' (Some ''e1'') (mk_date 2024 6 12),
            sample_alert ''43'' ''tt001'' None (mk_date 2030 6 15)]) ''42'' ''tt001''
     = Inr (Some (Some ''Title''))
   \<and> disable
       (Some [sample_alert ''42'' ''tt001'' None (mk_date 2030 6 15),
              sample_alert ''42'' ''tt002'' (Some ''e1'') (mk_date 2024 6 12),
              sample_alert ''43'' ''tt001'' None (mk_date 2030 6 15)]) ''42'' ''tt001''
     = (''Alert disabled.'',
        Some [sample_alert ''42'' ''tt002'' (Some ''e1'') (mk_date 2024 6 12),
              sample_alert ''43'' ''tt001'' None (mk_date 2030 6 15)])
   \<and> disable
       (Some [sample_alert ''42'' ''tt002'' (Some ''e1'') (mk_date 2024 6 12),
              sample_alert ''43'' ''tt001'' None (mk_date 2030 6 15)]) ''42'' ''tt001''
     = (''Alert disabled.'',
        Some [sample_alert ''42'' ''tt002'' (Some ''e1'') (mk_date 2024 6 12),
              sample_alert ''43'' ''tt001'' None (mk_date 2030 6 15)])
   \<and> query_user_alert
       (Some [sample_alert ''42'' ''tt002'' (Some ''e1'') (mk_date 2024 6 12),
              sample_alert ''43'' ''tt001'' None (mk_date 2030 6 15)]) ''42'' ''tt001''
     = Inr None"
proof -
  let ?a = "sample_alert ''42'' ''tt001'' None (mk_date 2030 6 15)"
  let ?b = "sample_alert ''42'' ''tt002'' (Some ''e1'') (mk_date 2024 6 12)"
  let ?c = "sample_alert ''43'' ''tt001'' None (mk_date 2030 6 15)"
  have k: "user_id ?a = ''42''" "title_id ?a = ''tt001''" "title_name ?a = Some ''Title''"
    by (simp_all add: sample_alert_def)
  have f: "filter (\<lambda>r. \<not> (user_id r = ''42'' \<and> title_id r = ''tt001'')) [?a, ?b, ?c] = [?b, ?c]"
    by code_simp
  note d = disable_idempotent[where rows = "[?b, ?c]" and r = ?a and u = "''42''" and t = "''tt001''"
             and db = "Some [?a, ?b, ?c]"]
  from d have q1: "query_user_alert (Some [?a, ?b, ?c]) ''42'' ''tt001'' = Inr (Some (Some ''Title''))"
    by (simp only: k)
  from disable_idempotent[where rows = "[?a, ?b, ?c]" and u = "''42''" and t = "''tt001''"]
  have q2: "disable (Some [?a, ?b, ?c]) ''42'' ''tt001'' = (''Alert disabled.'', Some [?b, ?c])"
    by (simp only: f)
  from d have q3: "disable (snd (disable (Some [?a, ?b, ?c]) ''42'' ''tt001'')) ''42'' ''tt001''
                  = disable (Some [?a, ?b, ?c]) ''42'' ''tt001''"
    by blast
  have s3: "disable (Some [?b, ?c]) ''42'' ''tt001'' = (''Alert disabled.'', Some [?b, ?c])"
    using q3 by (simp only: q2 snd_conv)
  from disable_idempotent[where rows = "[?a, ?b, ?c]" and u = "''42''" and t = "''tt001''"]
  have q4: "query_user_alert (snd (disable (Some [?a, ?b, ?c]) ''42'' ''tt001'')) ''42'' ''tt001'' = Inr None"
    by blast
  have s4: "query_user_alert (Some [?b, ?c]) ''42'' ''tt001'' = Inr None"
    using q4 by (simp only: q2 snd_conv)
  from q1 q2 s3 s4 show ?thesis by blast
qed

subsection \<open>C10: stored release dates are at midnight\<close>

text \<open>
  Claim C10. Whatever \<^verbatim>\<open>enable\<close> (on the movie path and on the series path),
  \<^verbatim>\<open>_update_episode\<close> (with the date of the next episode and with the date one week
  on) and the whole tick write, every row of the database they leave is a row that
  was there unchanged or carries a release date whose time of day is zero. And the
  query of the due rows, which compares the stored release date with today at
  midnight, returns the same rows when the rows that are not at midnight are taken
  out of the table: only a row stored at midnight can ever be due.
\<close>

theorem stored_dates_midnight:
  "writes_midnight db (snd (enable api now db u un t))
   \<and> writes_midnight db (snd (update_episode api now db u t cur))
   \<and> writes_midnight db (snd (notify api fmt now clock db))
   \<and> query_released (Some rows) (replace_midnight now) =
     query_released (Some (filter (\<lambda>r. midnight (title_release r)) rows)) (replace_midnight now)"
proof -
  have 1: "writes_midnight db (snd (enable api now db u un t))"
    using enable_db_cases[of api now db u un t]
          writes_midnight_insert[OF writes_midnight_refl[of db]] writes_midnight_refl[of db]
    by auto
  have 2: "writes_midnight db (snd (update_episode api now db u t cur))"
    using update_episode_db_cases[of api now db u t cur]
          writes_midnight_update[OF writes_midnight_refl[of db]]
          writes_midnight_delete[OF writes_midnight_refl[of db]] writes_midnight_refl[of db]
    by auto
  have 3: "writes_midnight db (snd (notify api fmt now clock db))"
    by (rule notify_invariant[of "writes_midnight db"])
       (simp_all add: writes_midnight_delete writes_midnight_update writes_midnight_refl)
  show ?thesis using 1 2 3 due_rows_midnight by blast
qed

end
